theory Spec2Isabelle
  imports Complex_Main "HOL-Library.Sublist"
begin

section \<open>Python values\<close>

text \<open>
  The SDK is dynamically typed: a decoded JSON body, the properties of a feature and the
  arguments of the validators are arbitrary Python values. One datatype holds them all.
  \<^item> \<open>PNum\<close> is an \<open>int\<close> or a finite \<open>float\<close>, held by the real number it is equal
    to; a comparison of two of them is exact in Python too. \<open>PInf\<close>, \<open>PNegInf\<close> and
    \<open>PNaN\<close> are the floats \<open>inf\<close>, \<open>-inf\<close> and \<open>nan\<close>.
  \<^item> \<open>PStr\<close> is a \<open>str\<close> whose characters have code points below 256.
  \<^item> \<open>PDict\<close> is a \<open>dict\<close> with string keys, as an association list read with
    \<open>map_of\<close>: the first binding of a key is the one the dict holds.
  \<^item> \<open>GeoPoint\<close> is an instance of the dataclass of that name. The dataclass does not
    check its fields, so they are Python values again.
\<close>

datatype pyval =
    PNone
  | PBool bool
  | PNum real
  | PInf
  | PNegInf
  | PNaN
  | PStr string
  | PList "pyval list"
  | PDict "(string \<times> pyval) list"
  | GeoPoint (latitude: pyval) (longitude: pyval)

text \<open>
  The exceptions of the SDK carry their message. \<open>TypeError\<close>, \<open>AttributeError\<close>,
  \<open>KeyError\<close>, \<open>IndexError\<close>, \<open>OverflowError\<close> and \<open>ValueError\<close> (here
  \<open>PyValueError\<close>) are raised by the interpreter, except for the two \<open>TypeError\<close>s that
  \<open>RouteInfo.__init__\<close> raises itself; the message of an interpreter error is abbreviated
  where it names the types of the operands.
\<close>

datatype error =
    ValidationError string
  | AuthenticationError string
  | RateLimitError string
  | APIError string
  | TypeError string
  | AttributeError string
  | KeyError string
  | IndexError string
  | OverflowError string
  | PyValueError string

definition seq :: "error + 'a \<Rightarrow> ('a \<Rightarrow> error + 'b) \<Rightarrow> error + 'b" where
  "seq m f = (case m of Inl e \<Rightarrow> Inl e | Inr x \<Rightarrow> f x)"

text \<open>\<open>bool(v)\<close>: the truth value of a Python value.\<close>

fun py_truthy :: "pyval \<Rightarrow> bool" where
  "py_truthy PNone = False"
| "py_truthy (PBool b) = b"
| "py_truthy (PNum r) = (r \<noteq> 0)"
| "py_truthy PInf = True"
| "py_truthy PNegInf = True"
| "py_truthy PNaN = True"
| "py_truthy (PStr s) = (s \<noteq> [])"
| "py_truthy (PList xs) = (xs \<noteq> [])"
| "py_truthy (PDict d) = (d \<noteq> [])"
| "py_truthy (GeoPoint lat lon) = True"

text \<open>
  The finite number a value stands for in arithmetic and comparisons (\<open>bool\<close> is an
  \<open>int\<close>), and the test that a value is a number, finite or not.
\<close>

fun py_number :: "pyval \<Rightarrow> real option" where
  "py_number (PNum r) = Some r"
| "py_number (PBool b) = Some (if b then 1 else 0)"
| "py_number v = None"

fun is_number :: "pyval \<Rightarrow> bool" where
  "is_number (PNum r) = True"
| "is_number (PBool b) = True"
| "is_number PInf = True"
| "is_number PNegInf = True"
| "is_number PNaN = True"
| "is_number v = False"

text \<open>\<open>len(v)\<close>.\<close>

fun py_len :: "pyval \<Rightarrow> error + nat" where
  "py_len (PStr s) = Inr (length s)"
| "py_len (PList xs) = Inr (length xs)"
| "py_len (PDict d) = Inr (length (remdups (map fst d)))"
| "py_len v = Inl (TypeError ''object has no len()'')"

text \<open>\<open>v.get(key, default)\<close>: only a dict has the method.\<close>

fun py_get :: "pyval \<Rightarrow> string \<Rightarrow> pyval \<Rightarrow> error + pyval" where
  "py_get (PDict d) k dflt = Inr (case map_of d k of Some v \<Rightarrow> v | None \<Rightarrow> dflt)"
| "py_get v k dflt = Inl (AttributeError ''get'')"

text \<open>\<open>key in v\<close> for a string key.\<close>

fun py_contains :: "string \<Rightarrow> pyval \<Rightarrow> error + bool" where
  "py_contains k (PDict d) = Inr (map_of d k \<noteq> None)"
| "py_contains k (PList xs) = Inr (PStr k \<in> set xs)"
| "py_contains k (PStr s) = Inr (sublist k s)"
| "py_contains k v = Inl (TypeError ''argument is not iterable'')"

text \<open>\<open>v[key]\<close> for a string key.\<close>

fun py_getitem :: "pyval \<Rightarrow> string \<Rightarrow> error + pyval" where
  "py_getitem (PDict d) k = (case map_of d k of Some v \<Rightarrow> Inr v | None \<Rightarrow> Inl (KeyError k))"
| "py_getitem v k = Inl (TypeError ''indices must be integers'')"

text \<open>\<open>v[i]\<close> for an index \<open>i \<ge> 0\<close>. The keys of a dict are strings, so no index is a key.\<close>

fun py_index :: "pyval \<Rightarrow> nat \<Rightarrow> error + pyval" where
  "py_index (PList xs) i = (if i < length xs then Inr (xs ! i) else Inl (IndexError ''list index out of range''))"
| "py_index (PStr s) i = (if i < length s then Inr (PStr [s ! i]) else Inl (IndexError ''string index out of range''))"
| "py_index (PDict d) i = Inl (KeyError ''index'')"
| "py_index v i = Inl (TypeError ''object is not subscriptable'')"

text \<open>The items a \<open>for\<close> loop over \<open>v\<close> visits.\<close>

fun py_iter :: "pyval \<Rightarrow> error + pyval list" where
  "py_iter (PList xs) = Inr xs"
| "py_iter (PStr s) = Inr (map (\<lambda>c. PStr [c]) s)"
| "py_iter (PDict d) = Inr (map PStr (remdups (map fst d)))"
| "py_iter v = Inl (TypeError ''object is not iterable'')"

subsection \<open>Floats\<close>

text \<open>
  A Python \<open>float\<close> is an IEEE 754 double: a finite value, an infinity or \<open>nan\<close>. A finite
  double is held by the real number it is equal to, so plus and minus zero are one value;
  neither \<open>int()\<close> nor a comparison tells them apart.
\<close>

datatype float = Finite real | PosInf | NegInf | NaN

text \<open>\<open>int.bit_length\<close>: the number of binary digits of \<open>n\<close>.\<close>

function bit_length :: "nat \<Rightarrow> nat" where
  "bit_length n = (if n = 0 then 0 else Suc (bit_length (n div 2)))"
  by pat_completeness auto
termination
  by (relation "measure id") auto

declare bit_length.simps [simp del]

definition pow2 :: "int \<Rightarrow> real" where
  "pow2 e = (if 0 \<le> e then 2 ^ nat e else 1 / 2 ^ nat (- e))"

text \<open>The binary exponent of \<open>x \<noteq> 0\<close>: the \<open>e\<close> with \<open>2^e \<le> |x| < 2^(e+1)\<close>.\<close>

definition float_exponent :: "real \<Rightarrow> int" where
  "float_exponent x =
     (if 1 \<le> \<bar>x\<bar> then int (bit_length (nat \<lfloor>\<bar>x\<bar>\<rfloor>)) - 1
      else - int (bit_length (nat (\<lceil>1 / \<bar>x\<bar>\<rceil> - 1))))"

text \<open>The nearest integer, the even one of the two when \<open>x\<close> is half way.\<close>

definition round_half_even :: "real \<Rightarrow> int" where
  "round_half_even x =
     (if x - of_int \<lfloor>x\<rfloor> < 1 / 2 then \<lfloor>x\<rfloor>
      else if x - of_int \<lfloor>x\<rfloor> > 1 / 2 then \<lfloor>x\<rfloor> + 1
      else if even \<lfloor>x\<rfloor> then \<lfloor>x\<rfloor>
      else \<lfloor>x\<rfloor> + 1)"

text \<open>
  The spacing of the doubles around \<open>x\<close>: 52 binary digits below the exponent of \<open>x\<close>,
  and below -1022 for the subnormal numbers.
\<close>

definition ulp :: "real \<Rightarrow> real" where
  "ulp x = pow2 (max (float_exponent x) (- 1022) - 52)"

text \<open>
  The rounding of IEEE arithmetic in its default mode, to the nearest double and to the even
  one of two that are equally near, before the range is looked at: a result of absolute
  value \<open>2^1024\<close> or more stands for an overflow.
\<close>

definition round_double :: "real \<Rightarrow> real" where
  "round_double x = (if x = 0 then 0 else of_int (round_half_even (x / ulp x)) * ulp x)"

definition overflows :: "real \<Rightarrow> bool" where
  "overflows x = (2 ^ 1024 \<le> \<bar>round_double x\<bar>)"

text \<open>
  \<open>f * k\<close> for a float \<open>f\<close> and an int \<open>k > 0\<close> that is a double itself (1000 and 60 are):
  the exact product, rounded; an overflow gives an infinity.
\<close>

definition float_times :: "float \<Rightarrow> int \<Rightarrow> float" where
  "float_times f k =
     (case f of
        Finite x \<Rightarrow>
          if \<not> overflows (x * of_int k) then Finite (round_double (x * of_int k))
          else if 0 < x then PosInf else NegInf
      | PosInf \<Rightarrow> PosInf
      | NegInf \<Rightarrow> NegInf
      | NaN \<Rightarrow> NaN)"

text \<open>
  \<open>v / k\<close> for an int \<open>k > 0\<close> that is a double itself. The quotient of an int or a finite
  float is the exact quotient, rounded: \<open>int / int\<close> rounds correctly by the interpreter's
  own division, and \<open>float / int\<close> is the IEEE division by \<open>k\<close> as a float. Only an int is
  so large that its quotient overflows, and \<open>int / int\<close> raises \<open>OverflowError\<close> then.
\<close>

definition py_truediv :: "pyval \<Rightarrow> int \<Rightarrow> error + float" where
  "py_truediv v k =
     (case v of
        PInf \<Rightarrow> Inr PosInf
      | PNegInf \<Rightarrow> Inr NegInf
      | PNaN \<Rightarrow> Inr NaN
      | _ \<Rightarrow>
          (case py_number v of
             Some r \<Rightarrow>
               if overflows (r / of_int k) then
                 Inl (OverflowError ''integer division result too large for a float'')
               else Inr (Finite (round_double (r / of_int k)))
           | None \<Rightarrow> Inl (TypeError ''unsupported operand type(s) for /'')))"

text \<open>\<open>int(x)\<close> of a float: the fractional part is dropped, rounding towards zero.\<close>

definition py_int :: "real \<Rightarrow> int" where
  "py_int x = (if 0 \<le> x then \<lfloor>x\<rfloor> else \<lceil>x\<rceil>)"

definition int_of_float :: "float \<Rightarrow> error + int" where
  "int_of_float f =
     (case f of
        Finite x \<Rightarrow> Inr (py_int x)
      | PosInf \<Rightarrow> Inl (OverflowError ''cannot convert float infinity to integer'')
      | NegInf \<Rightarrow> Inl (OverflowError ''cannot convert float infinity to integer'')
      | NaN \<Rightarrow> Inl (PyValueError ''cannot convert float NaN to integer''))"

subsection \<open>Strings of numbers\<close>

text \<open>\<open>str(n)\<close> of an int, in decimal.\<close>

definition digit_char :: "nat \<Rightarrow> char" where
  "digit_char d = ''0123456789'' ! d"

function str_nat :: "nat \<Rightarrow> string" where
  "str_nat n =
     (if n < 10 then [digit_char n]
      else str_nat (n div 10) @ [digit_char (n mod 10)])"
  by pat_completeness auto
termination
  by (relation "measure id") auto

declare str_nat.simps [simp del]

definition str_int :: "int \<Rightarrow> string" where
  "str_int i = (if i < 0 then CHR ''-'' # str_nat (nat (- i)) else str_nat (nat i))"

section \<open>Domain model\<close>

text \<open>
  \<open>RouteInfo\<close> stores kilometres and minutes. Its \<open>__init__\<close> takes \<open>distance\<close> and
  \<open>duration\<close> (metres, seconds), which it divides, and the keyword arguments
  \<open>distance_km\<close> and \<open>duration_minutes\<close> (here \<open>km_arg\<close> and \<open>minutes_arg\<close>),
  which it stores as given. The keyword arguments are numbers, as annotated
  (\<open>float | None\<close>, where an \<open>int\<close> passes for a \<open>float\<close>); \<open>None\<close> is an argument that
  was not supplied. A stored number is an \<open>int\<close>, on which Python computes exactly, or a
  \<open>float\<close>.
\<close>

datatype number = PyInt int | PyFloat float

record RouteInfo =
  distance_km :: number
  duration_minutes :: number

definition RouteInfo_init ::
  "pyval \<Rightarrow> pyval \<Rightarrow> number option \<Rightarrow> number option \<Rightarrow> error + RouteInfo" where
  "RouteInfo_init distance duration km_arg minutes_arg =
     seq (case km_arg of
            Some k \<Rightarrow> Inr k
          | None \<Rightarrow>
              if distance \<noteq> PNone then seq (py_truediv distance 1000) (\<lambda>q. Inr (PyFloat q))
              else Inl (TypeError ''Either distance or distance_km must be provided''))
       (\<lambda>km.
     seq (case minutes_arg of
            Some m \<Rightarrow> Inr m
          | None \<Rightarrow>
              if duration \<noteq> PNone then seq (py_truediv duration 60) (\<lambda>q. Inr (PyFloat q))
              else Inl (TypeError ''Either duration or duration_minutes must be provided''))
       (\<lambda>mins. Inr \<lparr>distance_km = km, duration_minutes = mins\<rparr>))"

text \<open>\<open>int(n * k)\<close> for a stored number \<open>n\<close> and \<open>k\<close> = 1000 or 60.\<close>

definition int_of_product :: "number \<Rightarrow> int \<Rightarrow> error + int" where
  "int_of_product n k =
     (case n of
        PyInt i \<Rightarrow> Inr (i * k)
      | PyFloat f \<Rightarrow> int_of_float (float_times f k))"

definition distance :: "RouteInfo \<Rightarrow> error + int" where
  "distance r = int_of_product (distance_km r) 1000"

definition duration :: "RouteInfo \<Rightarrow> error + int" where
  "duration r = int_of_product (duration_minutes r) 60"

definition distance_meters :: "RouteInfo \<Rightarrow> error + int" where
  "distance_meters r = distance r"

definition duration_seconds :: "RouteInfo \<Rightarrow> error + int" where
  "duration_seconds r = duration r"

record Address =
  street :: pyval
  house_number :: pyval
  city :: pyval
  postcode :: pyval
  country :: pyval
  country_code :: pyval
  state :: pyval
  formatted_address :: pyval

record GeocodingResult =
  location :: pyval
  address :: Address
  confidence :: pyval
  confidence_building_level :: pyval
  confidence_street_level :: pyval
  confidence_city_level :: pyval
  raw_data :: pyval

record AutocompleteResult =
  address :: Address
  location :: pyval
  raw_data :: pyval

record DistanceMatrixResult =
  distances :: "pyval list list"
  durations :: "pyval list list"
  unit :: string
  sources :: pyval
  targets :: pyval

datatype TravelMode = DRIVING | WALKING | CYCLING | TRUCK

fun TravelMode_value :: "TravelMode \<Rightarrow> string" where
  "TravelMode_value DRIVING = ''drive''"
| "TravelMode_value WALKING = ''walk''"
| "TravelMode_value CYCLING = ''bike''"
| "TravelMode_value TRUCK = ''truck''"

datatype DistanceUnit = KILOMETERS | MILES | METERS

section \<open>The HTTP transport\<close>

text \<open>
  The transport is an external collaborator. A call of \<open>session.get\<close>, \<open>session.post\<close>
  or \<open>response.json()\<close> returns or raises; an exception it raises is named by the first
  \<open>except\<close> clause of \<open>_make_request\<close> that catches it, together with \<open>str(e)\<close>.
\<close>

datatype raised =
    Timeout string
  | RequestsConnectionError string
  | RequestException string
  | ValueError string

record response =
  status_code :: int
  response_text :: string
  json :: "raised + pyval"

text \<open>
  A value of the \<open>params\<close> dict. The text of the two formatted strings is not rendered:
  \<open>QLatLon a b\<close> stands for \<open>f"{a},{b}"\<close> and \<open>QJoin ps\<close> for \<open>"|".join\<close> of such
  strings.
\<close>

datatype qvalue =
    QVal pyval
  | QInt int
  | QLatLon pyval pyval
  | QJoin "(pyval \<times> pyval) list"

record request =
  req_method :: string
  req_url :: string
  req_params :: "(string \<times> qvalue) list option"
  req_json :: "pyval option"
  req_headers :: "(string \<times> string) list option"
  req_timeout :: int

record provider =
  api_key :: string
  timeout :: int
  session :: "request \<Rightarrow> raised + response"

text \<open>
  \<open>BaseLocationProvider.__init__\<close>; the session is created by the transport and is an
  argument here.
\<close>

definition provider_init :: "pyval \<Rightarrow> int \<Rightarrow> (request \<Rightarrow> raised + response) \<Rightarrow> error + provider" where
  "provider_init key tmo sess =
     (case key of
        PStr k \<Rightarrow>
          if k = [] then Inl (ValidationError ''API key must be a non-empty string'')
          else Inr \<lparr>api_key = k, timeout = tmo, session = sess\<rparr>
      | _ \<Rightarrow> Inl (ValidationError ''API key must be a non-empty string''))"

text \<open>
  \<open>str.upper\<close> on the ASCII letters. The result is only compared with \<open>GET\<close> and
  \<open>POST\<close>, and no other character below 256 is mapped to an ASCII letter.
\<close>

definition upper_char :: "char \<Rightarrow> char" where
  "upper_char c =
     (case map_of (zip ''abcdefghijklmnopqrstuvwxyz'' ''ABCDEFGHIJKLMNOPQRSTUVWXYZ'') c of
        Some u \<Rightarrow> u
      | None \<Rightarrow> c)"

definition upper :: "string \<Rightarrow> string" where
  "upper s = map upper_char s"

text \<open>The \<open>except\<close> clauses of \<open>_make_request\<close>.\<close>

fun except_clauses :: "int \<Rightarrow> raised \<Rightarrow> error" where
  "except_clauses tmo (Timeout m) =
     APIError (''API request timed out after '' @ str_int tmo @ '' seconds'')"
| "except_clauses tmo (RequestsConnectionError m) = APIError (''Connection error: '' @ m)"
| "except_clauses tmo (RequestException m) = APIError (''Request failed: '' @ m)"
| "except_clauses tmo (ValueError m) = APIError (''Failed to parse API response: '' @ m)"

text \<open>The body of the \<open>try\<close> block once the transport call has returned or raised.\<close>

definition handle_response :: "int \<Rightarrow> raised + response \<Rightarrow> error + pyval" where
  "handle_response tmo outcome =
     (case outcome of
        Inl exn \<Rightarrow> Inl (except_clauses tmo exn)
      | Inr resp \<Rightarrow>
          if status_code resp = 401 \<or> status_code resp = 403 then
            Inl (AuthenticationError ''Invalid API key or insufficient permissions'')
          else if status_code resp = 429 then
            Inl (RateLimitError ''API rate limit exceeded. Please try again later.'')
          else if status_code resp \<ge> 400 then
            Inl (APIError (''API request failed with status '' @ str_int (status_code resp)
                           @ '': '' @ response_text resp))
          else
            (case json resp of
               Inl exn \<Rightarrow> Inl (except_clauses tmo exn)
             | Inr body \<Rightarrow> Inr body))"

text \<open>
  \<open>BaseLocationProvider._make_request\<close>. The second component is the list of the
  requests that were sent.
\<close>

definition make_request ::
  "provider \<Rightarrow> string \<Rightarrow> string \<Rightarrow> (string \<times> qvalue) list option \<Rightarrow> pyval option
     \<Rightarrow> (string \<times> string) list option \<Rightarrow> (error + pyval) \<times> request list" where
  "make_request P u m ps data hs =
     (if upper m = ''GET'' then
        (let req = \<lparr>req_method = ''GET'', req_url = u, req_params = ps, req_json = None,
                     req_headers = hs, req_timeout = timeout P\<rparr>
         in (handle_response (timeout P) (session P req), [req]))
      else if upper m = ''POST'' then
        (let req = \<lparr>req_method = ''POST'', req_url = u, req_params = ps, req_json = data,
                     req_headers = hs, req_timeout = timeout P\<rparr>
         in (handle_response (timeout P) (session P req), [req]))
      else (Inl (ValidationError (''Unsupported HTTP method: '' @ m)), []))"

text \<open>What an operation does with the outcome of its request.\<close>

definition with_response ::
  "(error + pyval) \<times> request list \<Rightarrow> (pyval \<Rightarrow> error + 'a) \<Rightarrow> (error + 'a) \<times> request list" where
  "with_response out parse = (seq (fst out) parse, snd out)"

section \<open>The Geoapify provider\<close>

definition BASE_URL :: string where
  "BASE_URL = ''https://api.geoapify.com/v1''"

subsection \<open>Validation\<close>

text \<open>
  \<open>lo <= v <= hi\<close> for finite numbers \<open>lo \<le> hi\<close>: comparing a number with a value that
  is not one raises \<open>TypeError\<close>, and neither an infinity nor \<open>nan\<close> is between the two.
\<close>

definition py_between :: "real \<Rightarrow> pyval \<Rightarrow> real \<Rightarrow> error + bool" where
  "py_between lo v hi =
     (case v of
        PInf \<Rightarrow> Inr False
      | PNegInf \<Rightarrow> Inr False
      | PNaN \<Rightarrow> Inr False
      | _ \<Rightarrow>
          (case py_number v of
             Some r \<Rightarrow> Inr (lo \<le> r \<and> r \<le> hi)
           | None \<Rightarrow> Inl (TypeError ''<= not supported between instances'')))"

definition check_ranges :: "pyval \<Rightarrow> pyval \<Rightarrow> string \<Rightarrow> error + unit" where
  "check_ranges lat lon name =
     seq (py_between (- 90) lat 90) (\<lambda>lat_ok.
       if \<not> lat_ok then Inl (ValidationError (name @ '' latitude must be between -90 and 90''))
       else
     seq (py_between (- 180) lon 180) (\<lambda>lon_ok.
       if \<not> lon_ok then Inl (ValidationError (name @ '' longitude must be between -180 and 180''))
       else Inr ()))"

text \<open>\<open>GeoapifyProvider._validate_location\<close>.\<close>

fun validate_location :: "pyval \<Rightarrow> string \<Rightarrow> error + unit" where
  "validate_location (PDict d) name =
     (case (map_of d ''latitude'', map_of d ''longitude'') of
        (Some lat, Some lon) \<Rightarrow> check_ranges lat lon name
      | _ \<Rightarrow> Inl (ValidationError (name @ '' must have 'latitude' and 'longitude' keys'')))"
| "validate_location (GeoPoint lat lon) name = check_ranges lat lon name"
| "validate_location v name =
     Inl (ValidationError (name @ '' must be a GeoPoint or dict with latitude and longitude''))"

text \<open>
  The loop of \<open>_validate_locations_list\<close> from index \<open>idx\<close> on. It raises a caught
  \<open>ValidationError\<close> again with the same message; any other exception passes through.
\<close>

fun validate_each :: "pyval list \<Rightarrow> string \<Rightarrow> nat \<Rightarrow> error + unit" where
  "validate_each [] name idx = Inr ()"
| "validate_each (x # xs) name idx =
     seq (validate_location x (name @ ''['' @ str_nat idx @ '']''))
       (\<lambda>_. validate_each xs name (Suc idx))"

text \<open>\<open>GeoapifyProvider._validate_locations_list\<close>.\<close>

definition validate_locations_list :: "pyval \<Rightarrow> string \<Rightarrow> error + unit" where
  "validate_locations_list locations name =
     (if \<not> py_truthy locations then Inl (ValidationError (name @ '' must not be empty''))
      else
        seq (py_len locations) (\<lambda>n.
          if n = 0 then Inl (ValidationError (name @ '' must not be empty''))
          else
            (case locations of
               PList xs \<Rightarrow> validate_each xs name 0
             | _ \<Rightarrow> Inl (ValidationError (name @ '' must be a list of GeoPoint objects'')))))"

text \<open>
  The test \<open>not query or not isinstance(query, str) or not query.strip()\<close>. A value that
  is not a string fails the first or the second disjunct.
\<close>

definition py_isspace :: "char \<Rightarrow> bool" where
  "py_isspace c =
     (c \<in> {CHR 0x09, CHR 0x0A, CHR 0x0B, CHR 0x0C, CHR 0x0D, CHR 0x1C, CHR 0x1D, CHR 0x1E,
            CHR 0x1F, CHR 0x20, CHR 0x85, CHR 0xA0})"

definition py_strip :: "string \<Rightarrow> string" where
  "py_strip s = rev (dropWhile py_isspace (rev (dropWhile py_isspace s)))"

fun query_rejected :: "pyval \<Rightarrow> bool" where
  "query_rejected (PStr s) = (s = [] \<or> py_strip s = [])"
| "query_rejected v = True"

text \<open>The attributes \<open>loc.latitude\<close> and \<open>loc.longitude\<close>: a dict has neither.\<close>

fun attr_latitude :: "pyval \<Rightarrow> error + pyval" where
  "attr_latitude (GeoPoint lat lon) = Inr lat"
| "attr_latitude v = Inl (AttributeError ''latitude'')"

fun attr_longitude :: "pyval \<Rightarrow> error + pyval" where
  "attr_longitude (GeoPoint lat lon) = Inr lon"
| "attr_longitude v = Inl (AttributeError ''longitude'')"

subsection \<open>Response mapping\<close>

text \<open>The \<open>Address(...)\<close> call that geocode, reverse_geocode and autocomplete share.\<close>

definition address_of_props :: "pyval \<Rightarrow> error + Address" where
  "address_of_props props =
     seq (py_get props ''street'' PNone) (\<lambda>v1.
     seq (py_get props ''housenumber'' PNone) (\<lambda>v2.
     seq (py_get props ''city'' PNone) (\<lambda>v3.
     seq (py_get props ''postcode'' PNone) (\<lambda>v4.
     seq (py_get props ''country'' PNone) (\<lambda>v5.
     seq (py_get props ''country_code'' PNone) (\<lambda>v6.
     seq (py_get props ''state'' PNone) (\<lambda>v7.
     seq (py_get props ''formatted'' PNone) (\<lambda>v8.
       Inr \<lparr>street = v1, house_number = v2, city = v3, postcode = v4, country = v5,
            country_code = v6, state = v7, formatted_address = v8\<rparr>))))))))"

text \<open>
  The \<open>coords\<close> of a feature, and the test \<open>coords and len(coords) >= 2\<close> followed by
  \<open>coords[1]\<close> and \<open>coords[0]\<close>: the result is \<open>None\<close> when the feature is skipped and
  the pair (latitude, longitude) otherwise.
\<close>

definition feature_coords :: "pyval \<Rightarrow> error + pyval" where
  "feature_coords feature =
     seq (py_get feature ''geometry'' (PDict [])) (\<lambda>geometry.
       py_get geometry ''coordinates'' (PList []))"

definition lat_lon_of_coords :: "pyval \<Rightarrow> error + (pyval \<times> pyval) option" where
  "lat_lon_of_coords coords =
     (if \<not> py_truthy coords then Inr None
      else
        seq (py_len coords) (\<lambda>n.
          if \<not> n \<ge> 2 then Inr None
          else
            seq (py_index coords 1) (\<lambda>lat.
            seq (py_index coords 0) (\<lambda>lon. Inr (Some (lat, lon))))))"

text \<open>The body of the loop of \<open>geocode\<close>: the result to append, if any.\<close>

definition geocode_feature :: "pyval \<Rightarrow> error + GeocodingResult option" where
  "geocode_feature feature =
     seq (py_get feature ''properties'' (PDict [])) (\<lambda>props.
     seq (feature_coords feature) (\<lambda>coords.
     seq (lat_lon_of_coords coords) (\<lambda>ll.
       case ll of
         None \<Rightarrow> Inr None
       | Some (lat, lon) \<Rightarrow>
           seq (address_of_props props) (\<lambda>addr.
           seq (py_get props ''rank'' (PDict [])) (\<lambda>rank.
           seq (py_get rank ''confidence'' PNone) (\<lambda>c.
           seq (py_get rank ''confidence_building_level'' PNone) (\<lambda>cb.
           seq (py_get rank ''confidence_street_level'' PNone) (\<lambda>cs.
           seq (py_get rank ''confidence_city_level'' PNone) (\<lambda>cc.
             Inr (Some \<lparr>GeocodingResult.location = GeoPoint lat lon,
                        GeocodingResult.address = addr,
                        confidence = c,
                        confidence_building_level = cb,
                        confidence_street_level = cs,
                        confidence_city_level = cc,
                        GeocodingResult.raw_data = feature\<rparr>))))))))))"

fun geocode_loop :: "pyval list \<Rightarrow> GeocodingResult list \<Rightarrow> error + GeocodingResult list" where
  "geocode_loop [] results = Inr results"
| "geocode_loop (feature # rest) results =
     seq (geocode_feature feature) (\<lambda>r.
       geocode_loop rest (case r of None \<Rightarrow> results | Some x \<Rightarrow> results @ [x]))"

definition geocode_parse :: "pyval \<Rightarrow> error + GeocodingResult list" where
  "geocode_parse response =
     seq (py_contains ''features'' response) (\<lambda>present.
       if present then
         seq (py_getitem response ''features'') (\<lambda>fs.
         seq (py_iter fs) (\<lambda>items. geocode_loop items []))
       else Inr [])"

text \<open>The loop of \<open>reverse_geocode\<close>.\<close>

fun reverse_geocode_loop :: "pyval list \<Rightarrow> Address list \<Rightarrow> error + Address list" where
  "reverse_geocode_loop [] addresses = Inr addresses"
| "reverse_geocode_loop (feature # rest) addresses =
     seq (py_get feature ''properties'' (PDict [])) (\<lambda>props.
     seq (address_of_props props) (\<lambda>addr.
       reverse_geocode_loop rest (addresses @ [addr])))"

definition reverse_geocode_parse :: "pyval \<Rightarrow> error + Address list" where
  "reverse_geocode_parse response =
     seq (py_contains ''features'' response) (\<lambda>present.
       if present then
         seq (py_getitem response ''features'') (\<lambda>fs.
         seq (py_iter fs) (\<lambda>items. reverse_geocode_loop items []))
       else Inr [])"

text \<open>The body of the loop of \<open>autocomplete\<close>.\<close>

definition autocomplete_feature :: "pyval \<Rightarrow> error + AutocompleteResult option" where
  "autocomplete_feature feature =
     seq (py_get feature ''properties'' (PDict [])) (\<lambda>props.
     seq (feature_coords feature) (\<lambda>coords.
     seq (lat_lon_of_coords coords) (\<lambda>ll.
       case ll of
         None \<Rightarrow> Inr None
       | Some (lat, lon) \<Rightarrow>
           seq (address_of_props props) (\<lambda>addr.
             Inr (Some \<lparr>AutocompleteResult.address = addr,
                        AutocompleteResult.location = GeoPoint lat lon,
                        AutocompleteResult.raw_data = feature\<rparr>)))))"

fun autocomplete_loop :: "pyval list \<Rightarrow> AutocompleteResult list \<Rightarrow> error + AutocompleteResult list" where
  "autocomplete_loop [] results = Inr results"
| "autocomplete_loop (feature # rest) results =
     seq (autocomplete_feature feature) (\<lambda>r.
       autocomplete_loop rest (case r of None \<Rightarrow> results | Some x \<Rightarrow> results @ [x]))"

definition autocomplete_parse :: "pyval \<Rightarrow> error + AutocompleteResult list" where
  "autocomplete_parse response =
     seq (py_contains ''features'' response) (\<lambda>present.
       if present then
         seq (py_getitem response ''features'') (\<lambda>fs.
         seq (py_iter fs) (\<lambda>items. autocomplete_loop items []))
       else Inr [])"

text \<open>The inner loop of \<open>distance_matrix\<close>, over the entries of one row of the response.\<close>

fun matrix_row :: "pyval list \<Rightarrow> pyval list \<Rightarrow> pyval list \<Rightarrow> error + pyval list \<times> pyval list" where
  "matrix_row [] distance_row duration_row = Inr (distance_row, duration_row)"
| "matrix_row (target # rest) distance_row duration_row =
     seq (py_get target ''distance'' (PNum 0)) (\<lambda>d.
     seq (py_get target ''time'' (PNum 0)) (\<lambda>t.
       matrix_row rest (distance_row @ [d]) (duration_row @ [t])))"

text \<open>The outer loop, over the rows of \<open>response["sources_to_targets"]\<close>.\<close>

fun matrix_rows ::
  "pyval list \<Rightarrow> pyval list list \<Rightarrow> pyval list list \<Rightarrow> error + pyval list list \<times> pyval list list" where
  "matrix_rows [] ds ts = Inr (ds, ts)"
| "matrix_rows (source_matrix # rest) ds ts =
     seq (py_iter source_matrix) (\<lambda>entries.
     seq (matrix_row entries [] []) (\<lambda>(distance_row, duration_row).
       matrix_rows rest (ds @ [distance_row]) (ts @ [duration_row])))"

definition distance_matrix_parse :: "pyval \<Rightarrow> pyval \<Rightarrow> pyval \<Rightarrow> error + DistanceMatrixResult" where
  "distance_matrix_parse srcs tgts response =
     seq (py_contains ''sources_to_targets'' response) (\<lambda>present.
     seq (if present then
            seq (py_getitem response ''sources_to_targets'') (\<lambda>m.
            seq (py_iter m) (\<lambda>rows. matrix_rows rows [] []))
          else Inr ([], [])) (\<lambda>(ds, ts).
       Inr \<lparr>distances = ds, durations = ts, unit = ''metric'', sources = srcs, targets = tgts\<rparr>))"

text \<open>What \<open>route\<close> does with the decoded response.\<close>

definition route_parse :: "pyval \<Rightarrow> error + RouteInfo" where
  "route_parse response =
     seq (if py_truthy (PStr ''features'') then
            seq (py_get response ''features'' (PList [])) (\<lambda>fs.
            seq (py_len fs) (\<lambda>n. Inr (n > 0)))
          else Inr False) (\<lambda>found.
       if found then
         seq (py_getitem response ''features'') (\<lambda>features.
         seq (py_index features 0) (\<lambda>feature.
         seq (py_get feature ''properties'' (PDict [])) (\<lambda>props.
         seq (py_get props ''distance'' (PNum 0)) (\<lambda>dist.
         seq (py_get props ''time'' (PNum 0)) (\<lambda>dur.
           RouteInfo_init dist dur None None)))))
       else Inl (APIError ''No route found between the provided locations''))"

subsection \<open>Operations\<close>

text \<open>
  Each operation returns its result or exception together with the requests it sent.
\<close>

definition geocode_params :: "provider \<Rightarrow> pyval \<Rightarrow> (string \<times> qvalue) list" where
  "geocode_params P query =
     [(''text'', QVal query), (''apiKey'', QVal (PStr (api_key P))),
      (''format'', QVal (PStr ''json''))]"

definition geocode :: "provider \<Rightarrow> pyval \<Rightarrow> (error + GeocodingResult list) \<times> request list" where
  "geocode P query =
     (if query_rejected query then
        (Inl (ValidationError ''Query must be a non-empty string''), [])
      else
        with_response
          (make_request P (BASE_URL @ ''/geocode/search'') ''GET''
             (Some (geocode_params P query)) None None)
          geocode_parse)"

definition reverse_geocode_params :: "provider \<Rightarrow> pyval \<Rightarrow> error + (string \<times> qvalue) list" where
  "reverse_geocode_params P loc =
     seq (attr_latitude loc) (\<lambda>lat.
     seq (attr_longitude loc) (\<lambda>lon.
       Inr [(''lat'', QVal lat), (''lon'', QVal lon), (''apiKey'', QVal (PStr (api_key P))),
            (''format'', QVal (PStr ''json''))]))"

definition reverse_geocode :: "provider \<Rightarrow> pyval \<Rightarrow> (error + Address list) \<times> request list" where
  "reverse_geocode P loc =
     (case seq (validate_location loc ''location'') (\<lambda>_. reverse_geocode_params P loc) of
        Inl e \<Rightarrow> (Inl e, [])
      | Inr ps \<Rightarrow>
          with_response
            (make_request P (BASE_URL @ ''/geocode/reverse'') ''GET'' (Some ps) None None)
            reverse_geocode_parse)"

definition autocomplete_params :: "provider \<Rightarrow> pyval \<Rightarrow> int \<Rightarrow> (string \<times> qvalue) list" where
  "autocomplete_params P query limit =
     [(''text'', QVal query), (''apiKey'', QVal (PStr (api_key P))),
      (''format'', QVal (PStr ''json'')), (''limit'', QInt limit)]"

definition autocomplete ::
  "provider \<Rightarrow> pyval \<Rightarrow> int \<Rightarrow> (error + AutocompleteResult list) \<times> request list" where
  "autocomplete P query limit =
     (if query_rejected query then
        (Inl (ValidationError ''Query must be a non-empty string''), [])
      else if limit < 1 \<or> limit > 50 then
        (Inl (ValidationError ''Limit must be between 1 and 50''), [])
      else
        with_response
          (make_request P (BASE_URL @ ''/geocode/autocomplete'') ''GET''
             (Some (autocomplete_params P query limit)) None None)
          autocomplete_parse)"

text \<open>The list comprehension \<open>[f"{loc.latitude},{loc.longitude}" for loc in ...]\<close>.\<close>

fun lat_lon_strings :: "pyval list \<Rightarrow> error + (pyval \<times> pyval) list" where
  "lat_lon_strings [] = Inr []"
| "lat_lon_strings (loc # rest) =
     seq (attr_latitude loc) (\<lambda>lat.
     seq (attr_longitude loc) (\<lambda>lon.
     seq (lat_lon_strings rest) (\<lambda>more. Inr ((lat, lon) # more))))"

text \<open>
  \<open>distance_matrix\<close> up to the \<open>params\<close> dict: the two validations, the cap and the two
  formatted strings.
\<close>

definition distance_matrix_params ::
  "provider \<Rightarrow> pyval \<Rightarrow> pyval \<Rightarrow> error + (string \<times> qvalue) list" where
  "distance_matrix_params P srcs tgts =
     seq (validate_locations_list srcs ''sources'') (\<lambda>_.
     seq (validate_locations_list tgts ''targets'') (\<lambda>_.
     seq (py_len srcs) (\<lambda>n.
     seq (if n > 10 then Inr True else seq (py_len tgts) (\<lambda>m. Inr (m > 10))) (\<lambda>too_many.
       if too_many then
         Inl (ValidationError ''Maximum 10 sources and 10 targets are supported per request'')
       else
         seq (py_iter srcs) (\<lambda>ss.
         seq (lat_lon_strings ss) (\<lambda>sources_str.
         seq (py_iter tgts) (\<lambda>ts.
         seq (lat_lon_strings ts) (\<lambda>targets_str.
           Inr [(''sources'', QJoin sources_str), (''targets'', QJoin targets_str),
                (''apiKey'', QVal (PStr (api_key P)))]))))))))"

definition distance_matrix ::
  "provider \<Rightarrow> pyval \<Rightarrow> pyval \<Rightarrow> TravelMode \<Rightarrow> DistanceUnit
     \<Rightarrow> (error + DistanceMatrixResult) \<times> request list" where
  "distance_matrix P srcs tgts mode units =
     (case distance_matrix_params P srcs tgts of
        Inl e \<Rightarrow> (Inl e, [])
      | Inr ps \<Rightarrow>
          with_response
            (make_request P (BASE_URL @ ''/routematrix'') ''GET'' (Some ps) None None)
            (distance_matrix_parse srcs tgts))"

text \<open>\<open>route\<close> up to the \<open>params\<close> dict.\<close>

definition route_params ::
  "provider \<Rightarrow> pyval \<Rightarrow> pyval \<Rightarrow> TravelMode \<Rightarrow> error + (string \<times> qvalue) list" where
  "route_params P source target mode =
     seq (validate_location source ''source'') (\<lambda>_.
     seq (validate_location target ''target'') (\<lambda>_.
     seq (attr_latitude source) (\<lambda>slat.
     seq (attr_longitude source) (\<lambda>slon.
     seq (attr_latitude target) (\<lambda>tlat.
     seq (attr_longitude target) (\<lambda>tlon.
       Inr [(''from'', QLatLon slat slon), (''to'', QLatLon tlat tlon),
            (''mode'', QVal (PStr (TravelMode_value mode))),
            (''apiKey'', QVal (PStr (api_key P)))]))))))"

definition route ::
  "provider \<Rightarrow> pyval \<Rightarrow> pyval \<Rightarrow> TravelMode \<Rightarrow> (error + RouteInfo) \<times> request list" where
  "route P source target mode =
     (case route_params P source target mode of
        Inl e \<Rightarrow> (Inl e, [])
      | Inr ps \<Rightarrow>
          with_response
            (make_request P (BASE_URL @ ''/routing'') ''GET'' (Some ps) None None)
            route_parse)"

section \<open>Fixtures and typing predicates\<close>

text \<open>
  A transport that answers every request with the same response, as the mocks of the
  test suite do, and the provider of the test suite on top of a transport.
\<close>

definition fixed_session :: "int \<Rightarrow> string \<Rightarrow> raised + pyval \<Rightarrow> request \<Rightarrow> raised + response" where
  "fixed_session st txt body = (\<lambda>_. Inr \<lparr>status_code = st, response_text = txt, json = body\<rparr>)"

definition test_provider :: "(request \<Rightarrow> raised + response) \<Rightarrow> provider" where
  "test_provider sess = \<lparr>api_key = ''test_api_key'', timeout = 10, session = sess\<rparr>"

text \<open>
  The coordinates a point carries are numbers, as \<open>GeoPoint\<close> annotates them
  (\<open>latitude: float\<close>): no comparison in the validators raises \<open>TypeError\<close> on it.
\<close>

definition coords_numeric :: "pyval \<Rightarrow> bool" where
  "coords_numeric p =
     (case p of
        GeoPoint lat lon \<Rightarrow> is_number lat \<and> is_number lon
      | PDict d \<Rightarrow>
          (case map_of d ''latitude'' of None \<Rightarrow> True | Some lat \<Rightarrow> is_number lat)
          \<and> (case map_of d ''longitude'' of None \<Rightarrow> True | Some lon \<Rightarrow> is_number lon)
      | _ \<Rightarrow> True)"

text \<open>
  \<open>v\<close> is a number that \<open>v / k\<close> turns into a float: any float, and any int but one so
  large that the quotient overflows.
\<close>

definition fits_float :: "pyval \<Rightarrow> int \<Rightarrow> bool" where
  "fits_float v k =
     (case py_number v of Some x \<Rightarrow> \<not> overflows (x / of_int k) | None \<Rightarrow> is_number v)"


text \<open>
  \<open>cell.get(key, 0)\<close> on a cell of the matrix that is a dict.
\<close>

definition cell_value :: "string \<Rightarrow> (string \<times> pyval) list \<Rightarrow> pyval" where
  "cell_value key cell = (case map_of cell key of Some v \<Rightarrow> v | None \<Rightarrow> PNum 0)"

section \<open>Basic facts\<close>

lemma seq_Inr [simp]: "seq (Inr x) f = f x"
  by (simp add: seq_def)

lemma seq_Inl [simp]: "seq (Inl e) f = Inl e"
  by (simp add: seq_def)

lemma with_response_Inr [simp]: "with_response (Inr r, sent) parse = (parse r, sent)"
  by (simp add: with_response_def)

lemma with_response_Inl [simp]: "with_response (Inl e, sent) parse = (Inl e, sent)"
  by (simp add: with_response_def)

section \<open>Rounding\<close>

lemmas float_eval = round_double_def ulp_def round_half_even_def float_exponent_def pow2_def
  overflows_def bit_length.simps

lemma pow2_pos: "0 < pow2 e"
  by (simp add: pow2_def)

lemma round_half_even_sign:
  "(0 \<le> x \<longrightarrow> 0 \<le> round_half_even x) \<and> (x \<le> 0 \<longrightarrow> round_half_even x \<le> 0)"
proof -
  have a: "0 \<le> x \<Longrightarrow> 0 \<le> \<lfloor>x\<rfloor>"
    by simp
  have b: "x < 0 \<Longrightarrow> \<lfloor>x\<rfloor> + 1 \<le> 0"
    by (simp add: floor_less_iff add1_zle_eq)
  have c: "x = 0 \<Longrightarrow> round_half_even x = 0"
    by (simp add: round_half_even_def)
  have d: "x < 0 \<Longrightarrow> round_half_even x \<le> 0"
    using b by (auto simp: round_half_even_def)
  have e: "0 \<le> x \<Longrightarrow> 0 \<le> round_half_even x"
    using a by (auto simp: round_half_even_def)
  from c d e show ?thesis
    by (cases "x < 0") auto
qed

lemma round_double_sign:
  "(0 \<le> x \<longrightarrow> 0 \<le> round_double x) \<and> (x \<le> 0 \<longrightarrow> round_double x \<le> 0)"
proof (cases "x = 0")
  case True
  then show ?thesis by (simp add: round_double_def)
next
  case False
  have q: "0 < ulp x"
    by (simp add: ulp_def pow2_pos)
  have "0 \<le> x \<Longrightarrow> 0 \<le> x / ulp x" and "x \<le> 0 \<Longrightarrow> x / ulp x \<le> 0"
    using q by (simp_all add: divide_nonpos_pos)
  then have "0 \<le> x \<Longrightarrow> 0 \<le> round_half_even (x / ulp x)"
    and "x \<le> 0 \<Longrightarrow> round_half_even (x / ulp x) \<le> 0"
    using round_half_even_sign [of "x / ulp x"] by simp_all
  then have "0 \<le> x \<Longrightarrow> 0 \<le> of_int (round_half_even (x / ulp x)) * ulp x"
    and "x \<le> 0 \<Longrightarrow> of_int (round_half_even (x / ulp x)) * ulp x \<le> 0"
    using q by (simp_all add: mult_nonpos_nonneg)
  with False show ?thesis
    by (simp add: round_double_def)
qed

lemma py_int_round_double:
  "py_int (round_double (x * of_int k)) =
     (if 0 \<le> x * of_int k then \<lfloor>round_double (x * of_int k)\<rfloor> else \<lceil>round_double (x * of_int k)\<rceil>)"
proof (cases "0 \<le> x * of_int k")
  case True
  then have "0 \<le> round_double (x * of_int k)"
    using round_double_sign [of "x * of_int k"] by simp
  with True show ?thesis
    by (simp add: py_int_def)
next
  case False
  then have le: "round_double (x * of_int k) \<le> 0"
    using round_double_sign [of "x * of_int k"] by simp
  show ?thesis
  proof (cases "round_double (x * of_int k) = 0")
    case True
    with False show ?thesis by (simp add: py_int_def)
  next
    case nz: False
    with le have "\<not> 0 \<le> round_double (x * of_int k)" by simp
    with False show ?thesis by (simp add: py_int_def)
  qed
qed

lemma int_of_product_cases:
  "(n = PyInt i \<longrightarrow> int_of_product n k = Inr (i * k))
   \<and> (n = PyFloat (Finite x) \<and> \<not> overflows (x * of_int k) \<longrightarrow>
        int_of_product n k
          = Inr (if 0 \<le> x * of_int k then \<lfloor>round_double (x * of_int k)\<rfloor>
                 else \<lceil>round_double (x * of_int k)\<rceil>))
   \<and> (n = PyFloat (Finite x) \<and> overflows (x * of_int k) \<or> n = PyFloat PosInf \<or> n = PyFloat NegInf \<longrightarrow>
        int_of_product n k = Inl (OverflowError ''cannot convert float infinity to integer''))
   \<and> (n = PyFloat NaN \<longrightarrow>
        int_of_product n k = Inl (PyValueError ''cannot convert float NaN to integer''))"
  by (auto simp: int_of_product_def float_times_def int_of_float_def py_int_round_double)

section \<open>RouteInfo\<close>

text \<open>
  Claim C2, as amended. The \<open>distance\<close> accessor is \<open>int(distance_km * 1000)\<close>. On a stored
  \<open>int\<close> the product is exact. On a stored finite float the product is rounded to a double
  and its fractional part is then dropped: the result is the floor of the rounded product
  when \<open>distance_km\<close> is not negative and its ceiling when it is. The accessor raises
  \<open>OverflowError\<close> when the product overflows or \<open>distance_km\<close> is infinite, and
  \<open>ValueError\<close> when it is \<open>nan\<close>. The \<open>duration\<close> accessor is \<open>int(duration_minutes * 60)\<close>
  in the same way.
\<close>

theorem accessors_truncate_towards_zero:
  "(distance_km r = PyInt i \<longrightarrow> distance r = Inr (i * 1000))
   \<and> (distance_km r = PyFloat (Finite x) \<and> \<not> overflows (x * 1000) \<longrightarrow>
        distance r = Inr (if 0 \<le> x then \<lfloor>round_double (x * 1000)\<rfloor> else \<lceil>round_double (x * 1000)\<rceil>))
   \<and> (distance_km r = PyFloat (Finite x) \<and> overflows (x * 1000)
        \<or> distance_km r = PyFloat PosInf \<or> distance_km r = PyFloat NegInf \<longrightarrow>
        distance r = Inl (OverflowError ''cannot convert float infinity to integer''))
   \<and> (distance_km r = PyFloat NaN \<longrightarrow>
        distance r = Inl (PyValueError ''cannot convert float NaN to integer''))
   \<and> (duration_minutes r = PyInt j \<longrightarrow> duration r = Inr (j * 60))
   \<and> (duration_minutes r = PyFloat (Finite y) \<and> \<not> overflows (y * 60) \<longrightarrow>
        duration r = Inr (if 0 \<le> y then \<lfloor>round_double (y * 60)\<rfloor> else \<lceil>round_double (y * 60)\<rceil>))
   \<and> (duration_minutes r = PyFloat (Finite y) \<and> overflows (y * 60)
        \<or> duration_minutes r = PyFloat PosInf \<or> duration_minutes r = PyFloat NegInf \<longrightarrow>
        duration r = Inl (OverflowError ''cannot convert float infinity to integer''))
   \<and> (duration_minutes r = PyFloat NaN \<longrightarrow>
        duration r = Inl (PyValueError ''cannot convert float NaN to integer''))"
  using int_of_product_cases [of "distance_km r" i 1000 x]
    int_of_product_cases [of "duration_minutes r" j 60 y]
  by (simp add: distance_def duration_def zero_le_mult_iff)

theorem accessors_truncate_towards_zero_witness:
  "distance \<lparr>distance_km = PyFloat (Finite 5), duration_minutes = PyFloat (Finite 5)\<rparr> = Inr 5000
   \<and> duration \<lparr>distance_km = PyFloat (Finite 5), duration_minutes = PyFloat (Finite 5)\<rparr> = Inr 300
   \<and> distance \<lparr>distance_km = PyFloat (Finite (5188146770730811 / 2 ^ 59)),
               duration_minutes = PyInt 7\<rparr> = Inr 9
   \<and> duration \<lparr>distance_km = PyFloat (Finite (5188146770730811 / 2 ^ 59)),
               duration_minutes = PyInt 7\<rparr> = Inr 420
   \<and> distance \<lparr>distance_km = PyFloat (Finite (- (3 / 2048))), duration_minutes = PyFloat NaN\<rparr>
       = Inr (- 1)
   \<and> duration \<lparr>distance_km = PyFloat (Finite (- (3 / 2048))), duration_minutes = PyFloat NaN\<rparr>
       = Inl (PyValueError ''cannot convert float NaN to integer'')
   \<and> distance \<lparr>distance_km = PyFloat PosInf, duration_minutes = PyFloat NegInf\<rparr>
       = Inl (OverflowError ''cannot convert float infinity to integer'')
   \<and> duration \<lparr>distance_km = PyFloat PosInf, duration_minutes = PyFloat NegInf\<rparr>
       = Inl (OverflowError ''cannot convert float infinity to integer'')"
proof -
  show ?thesis
    using accessors_truncate_towards_zero
            [of "\<lparr>distance_km = PyFloat (Finite 5), duration_minutes = PyFloat (Finite 5)\<rparr>"
                0 5 0 5]
      accessors_truncate_towards_zero
            [of "\<lparr>distance_km = PyFloat (Finite (5188146770730811 / 2 ^ 59)),
                  duration_minutes = PyInt 7\<rparr>" 0 "5188146770730811 / 2 ^ 59" 7 0]
      accessors_truncate_towards_zero
            [of "\<lparr>distance_km = PyFloat (Finite (- (3 / 2048))), duration_minutes = PyFloat NaN\<rparr>"
                0 "- (3 / 2048)" 0 0]
      accessors_truncate_towards_zero
            [of "\<lparr>distance_km = PyFloat PosInf, duration_minutes = PyFloat NegInf\<rparr>" 0 0 0 0]
    by (simp add: float_eval)
qed

text \<open>
  Claim C2 as stated fails for a negative value: with \<open>distance_km = -1/1024\<close> and
  \<open>duration_minutes = -1/128\<close>, both floats, the products -0.9765625 and -0.46875 are
  floats too and nothing is rounded; the accessors return 0, and the floor is -1.
\<close>

theorem accessors_floor_counterexample:
  "distance \<lparr>distance_km = PyFloat (Finite (- (1 / 1024))),
             duration_minutes = PyFloat (Finite (- (1 / 128)))\<rparr> = Inr 0
   \<and> round_double (- (1 / 1024) * 1000) = - (1 / 1024) * 1000
   \<and> \<lfloor>- (1 / 1024) * 1000 :: real\<rfloor> = - 1
   \<and> duration \<lparr>distance_km = PyFloat (Finite (- (1 / 1024))),
               duration_minutes = PyFloat (Finite (- (1 / 128)))\<rparr> = Inr 0
   \<and> round_double (- (1 / 128) * 60) = - (1 / 128) * 60
   \<and> \<lfloor>- (1 / 128) * 60 :: real\<rfloor> = - 1"
  by (simp add: distance_def duration_def int_of_product_def float_times_def int_of_float_def
      py_int_def float_eval)

lemma py_truediv_cases:
  "(\<not> is_number v \<longrightarrow> py_truediv v k = Inl (TypeError ''unsupported operand type(s) for /''))
   \<and> (is_number v \<and> \<not> fits_float v k \<longrightarrow>
        py_truediv v k = Inl (OverflowError ''integer division result too large for a float''))
   \<and> (fits_float v k \<longrightarrow> (\<exists>q. py_truediv v k = Inr q))
   \<and> (fits_float v k \<and> py_number v = Some x \<longrightarrow>
        py_truediv v k = Inr (Finite (round_double (x / of_int k))))"
  by (cases v) (auto simp: py_truediv_def fits_float_def)

lemma stored_quotient:
  assumes "fits_float v k"
  shows "\<exists>q. v \<noteq> PNone \<and> py_truediv v k = Inr q
             \<and> (\<forall>x. py_number v = Some x \<longrightarrow> q = Finite (round_double (x / of_int k)))"
  using assms by (cases v) (auto simp: py_truediv_def fits_float_def)

text \<open>
  Claim C6, as amended. Constructing \<open>RouteInfo\<close> needs at least one of each pair: with
  neither \<open>distance\<close> nor \<open>distance_km\<close> it raises \<open>TypeError\<close>, and so it does with neither
  \<open>duration\<close> nor \<open>duration_minutes\<close> once the first pair has gone through. A keyword
  argument that is supplied is stored, whether or not the other argument of its pair is
  supplied too; otherwise \<open>distance / 1000\<close> or \<open>duration / 60\<close> is stored, and the
  construction succeeds when each of the divisions it needs does: a value that is not a
  number raises \<open>TypeError\<close> there, and an int whose quotient is beyond the floats raises
  \<open>OverflowError\<close>. The quotient that is stored is rounded to a double.
\<close>

theorem RouteInfo_init_needs_one_of_each:
  "(km_arg = None \<and> metres = PNone \<longrightarrow>
      RouteInfo_init metres seconds km_arg minutes_arg
        = Inl (TypeError ''Either distance or distance_km must be provided''))
   \<and> (km_arg = None \<and> metres \<noteq> PNone \<and> \<not> is_number metres \<longrightarrow>
      (\<exists>msg. RouteInfo_init metres seconds km_arg minutes_arg = Inl (TypeError msg)))
   \<and> (km_arg = None \<and> is_number metres \<and> \<not> fits_float metres 1000 \<longrightarrow>
      (\<exists>msg. RouteInfo_init metres seconds km_arg minutes_arg = Inl (OverflowError msg)))
   \<and> ((km_arg \<noteq> None \<or> fits_float metres 1000) \<and> minutes_arg = None \<and> seconds = PNone \<longrightarrow>
      RouteInfo_init metres seconds km_arg minutes_arg
        = Inl (TypeError ''Either duration or duration_minutes must be provided''))
   \<and> ((km_arg \<noteq> None \<or> fits_float metres 1000) \<and> minutes_arg = None \<and> seconds \<noteq> PNone
       \<and> \<not> is_number seconds \<longrightarrow>
      (\<exists>msg. RouteInfo_init metres seconds km_arg minutes_arg = Inl (TypeError msg)))
   \<and> ((km_arg \<noteq> None \<or> fits_float metres 1000) \<and> minutes_arg = None \<and> is_number seconds
       \<and> \<not> fits_float seconds 60 \<longrightarrow>
      (\<exists>msg. RouteInfo_init metres seconds km_arg minutes_arg = Inl (OverflowError msg)))
   \<and> ((km_arg \<noteq> None \<or> fits_float metres 1000) \<and> (minutes_arg \<noteq> None \<or> fits_float seconds 60) \<longrightarrow>
      (\<exists>r. RouteInfo_init metres seconds km_arg minutes_arg = Inr r
          \<and> (\<forall>k. km_arg = Some k \<longrightarrow> distance_km r = k)
          \<and> (\<forall>m. minutes_arg = Some m \<longrightarrow> duration_minutes r = m)
          \<and> (\<forall>x. km_arg = None \<and> py_number metres = Some x \<longrightarrow>
                distance_km r = PyFloat (Finite (round_double (x / 1000))))
          \<and> (\<forall>y. minutes_arg = None \<and> py_number seconds = Some y \<longrightarrow>
                duration_minutes r = PyFloat (Finite (round_double (y / 60))))))"
proof -
  define A where "A = (case km_arg of
                         Some k \<Rightarrow> Inr k
                       | None \<Rightarrow>
                           if metres \<noteq> PNone then seq (py_truediv metres 1000) (\<lambda>q. Inr (PyFloat q))
                           else Inl (TypeError ''Either distance or distance_km must be provided''))"
  define B where "B = (case minutes_arg of
                         Some m \<Rightarrow> Inr m
                       | None \<Rightarrow>
                           if seconds \<noteq> PNone then seq (py_truediv seconds 60) (\<lambda>q. Inr (PyFloat q))
                           else Inl (TypeError ''Either duration or duration_minutes must be provided''))"
  have R: "RouteInfo_init metres seconds km_arg minutes_arg
             = seq A (\<lambda>km. seq B (\<lambda>mins. Inr \<lparr>distance_km = km, duration_minutes = mins\<rparr>))"
    by (simp add: RouteInfo_init_def A_def B_def)
  have none: "\<not> is_number PNone" "\<not> fits_float PNone k" for k
    by (simp_all add: fits_float_def)
  note d = py_truediv_cases [of metres 1000]
  note t = py_truediv_cases [of seconds 60]
  have km: "\<exists>k. A = Inr k
               \<and> (\<forall>k'. km_arg = Some k' \<longrightarrow> k = k')
               \<and> (\<forall>x. km_arg = None \<and> py_number metres = Some x \<longrightarrow>
                     k = PyFloat (Finite (round_double (x / 1000))))"
    if "km_arg \<noteq> None \<or> fits_float metres 1000"
    using that stored_quotient [of metres 1000] unfolding A_def by (cases km_arg) auto
  have mins: "\<exists>m. B = Inr m
               \<and> (\<forall>m'. minutes_arg = Some m' \<longrightarrow> m = m')
               \<and> (\<forall>y. minutes_arg = None \<and> py_number seconds = Some y \<longrightarrow>
                     m = PyFloat (Finite (round_double (y / 60))))"
    if "minutes_arg \<noteq> None \<or> fits_float seconds 60"
    using that stored_quotient [of seconds 60] unfolding B_def by (cases minutes_arg) auto
  have c1: "km_arg = None \<and> metres = PNone \<longrightarrow>
      RouteInfo_init metres seconds km_arg minutes_arg
        = Inl (TypeError ''Either distance or distance_km must be provided'')"
    unfolding R A_def by simp
  have c2: "km_arg = None \<and> metres \<noteq> PNone \<and> \<not> is_number metres \<longrightarrow>
      (\<exists>msg. RouteInfo_init metres seconds km_arg minutes_arg = Inl (TypeError msg))"
    unfolding R A_def using d by simp
  have c3: "km_arg = None \<and> is_number metres \<and> \<not> fits_float metres 1000 \<longrightarrow>
      (\<exists>msg. RouteInfo_init metres seconds km_arg minutes_arg = Inl (OverflowError msg))"
    unfolding R A_def using d none by auto
  have c4: "(km_arg \<noteq> None \<or> fits_float metres 1000) \<and> minutes_arg = None \<and> seconds = PNone \<longrightarrow>
      RouteInfo_init metres seconds km_arg minutes_arg
        = Inl (TypeError ''Either duration or duration_minutes must be provided'')"
  proof (intro impI)
    assume h: "(km_arg \<noteq> None \<or> fits_float metres 1000) \<and> minutes_arg = None \<and> seconds = PNone"
    then obtain k where "A = Inr k" using km by blast
    moreover have "B = Inl (TypeError ''Either duration or duration_minutes must be provided'')"
      using h by (simp add: B_def)
    ultimately show "RouteInfo_init metres seconds km_arg minutes_arg
        = Inl (TypeError ''Either duration or duration_minutes must be provided'')"
      by (simp add: R)
  qed
  have c5: "(km_arg \<noteq> None \<or> fits_float metres 1000) \<and> minutes_arg = None \<and> seconds \<noteq> PNone
       \<and> \<not> is_number seconds \<longrightarrow>
      (\<exists>msg. RouteInfo_init metres seconds km_arg minutes_arg = Inl (TypeError msg))"
  proof (intro impI)
    assume h: "(km_arg \<noteq> None \<or> fits_float metres 1000) \<and> minutes_arg = None \<and> seconds \<noteq> PNone
       \<and> \<not> is_number seconds"
    then obtain k where "A = Inr k" using km by blast
    moreover have "B = Inl (TypeError ''unsupported operand type(s) for /'')"
      using h t by (simp add: B_def)
    ultimately show "\<exists>msg. RouteInfo_init metres seconds km_arg minutes_arg = Inl (TypeError msg)"
      by (simp add: R)
  qed
  have c6: "(km_arg \<noteq> None \<or> fits_float metres 1000) \<and> minutes_arg = None \<and> is_number seconds
       \<and> \<not> fits_float seconds 60 \<longrightarrow>
      (\<exists>msg. RouteInfo_init metres seconds km_arg minutes_arg = Inl (OverflowError msg))"
  proof (intro impI)
    assume h: "(km_arg \<noteq> None \<or> fits_float metres 1000) \<and> minutes_arg = None \<and> is_number seconds
       \<and> \<not> fits_float seconds 60"
    then obtain k where "A = Inr k" using km by blast
    moreover have "seconds \<noteq> PNone"
      using h none by auto
    then have "B = Inl (OverflowError ''integer division result too large for a float'')"
      using h t by (simp add: B_def)
    ultimately show "\<exists>msg. RouteInfo_init metres seconds km_arg minutes_arg = Inl (OverflowError msg)"
      by (simp add: R)
  qed
  have c7: "(km_arg \<noteq> None \<or> fits_float metres 1000) \<and> (minutes_arg \<noteq> None \<or> fits_float seconds 60) \<longrightarrow>
      (\<exists>r. RouteInfo_init metres seconds km_arg minutes_arg = Inr r
          \<and> (\<forall>k. km_arg = Some k \<longrightarrow> distance_km r = k)
          \<and> (\<forall>m. minutes_arg = Some m \<longrightarrow> duration_minutes r = m)
          \<and> (\<forall>x. km_arg = None \<and> py_number metres = Some x \<longrightarrow>
                distance_km r = PyFloat (Finite (round_double (x / 1000))))
          \<and> (\<forall>y. minutes_arg = None \<and> py_number seconds = Some y \<longrightarrow>
                duration_minutes r = PyFloat (Finite (round_double (y / 60)))))"
  proof (intro impI)
    assume h: "(km_arg \<noteq> None \<or> fits_float metres 1000) \<and> (minutes_arg \<noteq> None \<or> fits_float seconds 60)"
    from km h obtain k where k: "A = Inr k"
      and k1: "\<forall>k'. km_arg = Some k' \<longrightarrow> k = k'"
      and k2: "\<forall>x. km_arg = None \<and> py_number metres = Some x \<longrightarrow>
                       k = PyFloat (Finite (round_double (x / 1000)))"
      by blast
    from mins h obtain m where m: "B = Inr m"
      and m1: "\<forall>m'. minutes_arg = Some m' \<longrightarrow> m = m'"
      and m2: "\<forall>y. minutes_arg = None \<and> py_number seconds = Some y \<longrightarrow>
                       m = PyFloat (Finite (round_double (y / 60)))"
      by blast
    have "RouteInfo_init metres seconds km_arg minutes_arg
            = Inr \<lparr>distance_km = k, duration_minutes = m\<rparr>"
      by (simp add: R k m)
    with k1 k2 m1 m2 show "\<exists>r. RouteInfo_init metres seconds km_arg minutes_arg = Inr r
          \<and> (\<forall>k. km_arg = Some k \<longrightarrow> distance_km r = k)
          \<and> (\<forall>m. minutes_arg = Some m \<longrightarrow> duration_minutes r = m)
          \<and> (\<forall>x. km_arg = None \<and> py_number metres = Some x \<longrightarrow>
                distance_km r = PyFloat (Finite (round_double (x / 1000))))
          \<and> (\<forall>y. minutes_arg = None \<and> py_number seconds = Some y \<longrightarrow>
                duration_minutes r = PyFloat (Finite (round_double (y / 60))))"
      by simp
  qed
  from c1 c2 c3 c4 c5 c6 c7 show ?thesis
    by (intro conjI)
qed

theorem RouteInfo_init_needs_one_of_each_witness:
  "RouteInfo_init (PNum 5000) (PNum 300) None None
     = Inr \<lparr>distance_km = PyFloat (Finite 5), duration_minutes = PyFloat (Finite 5)\<rparr>
   \<and> RouteInfo_init (PNum 1001) (PNum 100) None None
       = Inr \<lparr>distance_km = PyFloat (Finite (2254051613498933 / 2 ^ 51)),
              duration_minutes = PyFloat (Finite (7505999378950827 / 2 ^ 52))\<rparr>
   \<and> RouteInfo_init PNone (PNum 300) None None
       = Inl (TypeError ''Either distance or distance_km must be provided'')
   \<and> RouteInfo_init (PNum 5000) PNone None None
       = Inl (TypeError ''Either duration or duration_minutes must be provided'')
   \<and> RouteInfo_init (PStr ''abc'') (PNum 300) None None
       = Inl (TypeError ''unsupported operand type(s) for /'')
   \<and> RouteInfo_init PNone PNone (Some (PyInt 5)) (Some (PyFloat (Finite 2.5)))
       = Inr \<lparr>distance_km = PyInt 5, duration_minutes = PyFloat (Finite 2.5)\<rparr>"
proof -
  have f: "fits_float (PNum 5000) 1000" "fits_float (PNum 300) 60"
    "fits_float (PNum 1001) 1000" "fits_float (PNum 100) 60"
    by (simp_all add: fits_float_def float_eval)
  have n: "\<not> is_number (PStr ''abc'')" "\<not> fits_float PNone 1000" "\<not> fits_float PNone 60"
    by (simp_all add: fits_float_def)
  obtain r1 where r1: "RouteInfo_init (PNum 5000) (PNum 300) None None = Inr r1"
      and "distance_km r1 = PyFloat (Finite (round_double (5000 / 1000)))"
      and "duration_minutes r1 = PyFloat (Finite (round_double (300 / 60)))"
    using RouteInfo_init_needs_one_of_each [of None "PNum 5000" "PNum 300" None] f by auto
  then have a: "RouteInfo_init (PNum 5000) (PNum 300) None None
                  = Inr \<lparr>distance_km = PyFloat (Finite 5), duration_minutes = PyFloat (Finite 5)\<rparr>"
    by (simp add: float_eval)
  obtain r2 where r2: "RouteInfo_init (PNum 1001) (PNum 100) None None = Inr r2"
      and "distance_km r2 = PyFloat (Finite (round_double (1001 / 1000)))"
      and "duration_minutes r2 = PyFloat (Finite (round_double (100 / 60)))"
    using RouteInfo_init_needs_one_of_each [of None "PNum 1001" "PNum 100" None] f by auto
  then have b: "RouteInfo_init (PNum 1001) (PNum 100) None None
       = Inr \<lparr>distance_km = PyFloat (Finite (2254051613498933 / 2 ^ 51)),
              duration_minutes = PyFloat (Finite (7505999378950827 / 2 ^ 52))\<rparr>"
    by (simp add: float_eval)
  have c: "RouteInfo_init PNone (PNum 300) None None
       = Inl (TypeError ''Either distance or distance_km must be provided'')"
    using RouteInfo_init_needs_one_of_each [of None PNone "PNum 300" None] by simp
  have d: "RouteInfo_init (PNum 5000) PNone None None
       = Inl (TypeError ''Either duration or duration_minutes must be provided'')"
    using RouteInfo_init_needs_one_of_each [of None "PNum 5000" PNone None] f by simp
  obtain msg where e: "RouteInfo_init (PStr ''abc'') (PNum 300) None None = Inl (TypeError msg)"
    using RouteInfo_init_needs_one_of_each [of None "PStr ''abc''" "PNum 300" None] by auto
  then have e': "RouteInfo_init (PStr ''abc'') (PNum 300) None None
       = Inl (TypeError ''unsupported operand type(s) for /'')"
    by (simp add: RouteInfo_init_def py_truediv_def)
  obtain r3 where r3: "RouteInfo_init PNone PNone (Some (PyInt 5)) (Some (PyFloat (Finite 2.5))) = Inr r3"
      and "distance_km r3 = PyInt 5" and "duration_minutes r3 = PyFloat (Finite 2.5)"
    using RouteInfo_init_needs_one_of_each
            [of "Some (PyInt 5)" PNone PNone "Some (PyFloat (Finite 2.5))"] by auto
  then have g: "RouteInfo_init PNone PNone (Some (PyInt 5)) (Some (PyFloat (Finite 2.5)))
       = Inr \<lparr>distance_km = PyInt 5, duration_minutes = PyFloat (Finite 2.5)\<rparr>"
    by simp
  from a b c d e' g show ?thesis
    by (intro conjI)
qed

text \<open>
  Claim C6 as stated asks for exactly one of each pair; with both of each pair supplied
  the construction succeeds, and the kilometres and minutes win over the metres and seconds.
\<close>

theorem RouteInfo_init_both_counterexample:
  "RouteInfo_init (PNum 7000) (PNum 600) (Some (PyFloat (Finite 5))) (Some (PyFloat (Finite 5)))
     = Inr \<lparr>distance_km = PyFloat (Finite 5), duration_minutes = PyFloat (Finite 5)\<rparr>"
  by (simp add: RouteInfo_init_def)

section \<open>The request helper\<close>

lemma make_request_sent:
  assumes "make_request P u m ps data hs = (out, [req])"
  shows "out = handle_response (timeout P) (session P req)"
  using assms by (auto simp: make_request_def Let_def split: if_splits)

lemma make_request_GET:
  "make_request P u ''GET'' ps data hs =
     (handle_response (timeout P)
        (session P \<lparr>req_method = ''GET'', req_url = u, req_params = ps, req_json = None,
                     req_headers = hs, req_timeout = timeout P\<rparr>),
      [\<lparr>req_method = ''GET'', req_url = u, req_params = ps, req_json = None,
        req_headers = hs, req_timeout = timeout P\<rparr>])"
  by (simp add: make_request_def upper_def upper_char_def Let_def)

text \<open>
  Claim C4. For every request the helper sends and that the transport answers: status 401
  or 403 raises \<open>AuthenticationError\<close>, status 429 raises \<open>RateLimitError\<close>, any other
  status of 400 or more raises \<open>APIError\<close> whose message holds the status code in decimal
  and the text of the response, and a status below 400 whose body decodes returns the
  decoded body.
\<close>

theorem make_request_status_classes:
  assumes "make_request P u m ps data hs = (out, [req])"
      and "session P req = Inr resp"
  shows "(status_code resp = 401 \<or> status_code resp = 403 \<longrightarrow>
            out = Inl (AuthenticationError ''Invalid API key or insufficient permissions''))
       \<and> (status_code resp = 429 \<longrightarrow>
            out = Inl (RateLimitError ''API rate limit exceeded. Please try again later.''))
       \<and> (status_code resp \<ge> 400 \<and> status_code resp \<notin> {401, 403, 429} \<longrightarrow>
            out = Inl (APIError (''API request failed with status '' @ str_int (status_code resp)
                                 @ '': '' @ response_text resp)))
       \<and> (status_code resp < 400 \<longrightarrow> (\<forall>body. json resp = Inr body \<longrightarrow> out = Inr body))"
proof -
  have "out = handle_response (timeout P) (Inr resp)"
    using make_request_sent [OF assms(1)] assms(2) by simp
  then show ?thesis
    by (simp add: handle_response_def)
qed

theorem make_request_status_classes_witness:
  "fst (make_request (test_provider (fixed_session 401 ''Unauthorized'' (Inl (ValueError ''''))))
          ''u'' ''GET'' None None None)
     = Inl (AuthenticationError ''Invalid API key or insufficient permissions'')
   \<and> fst (make_request (test_provider (fixed_session 429 ''Too Many Requests'' (Inl (ValueError ''''))))
          ''u'' ''GET'' None None None)
     = Inl (RateLimitError ''API rate limit exceeded. Please try again later.'')
   \<and> fst (make_request (test_provider (fixed_session 500 ''Internal Server Error'' (Inl (ValueError ''''))))
          ''u'' ''GET'' None None None)
     = Inl (APIError ''API request failed with status 500: Internal Server Error'')
   \<and> fst (make_request (test_provider (fixed_session 200 ''{}'' (Inr (PDict []))))
          ''u'' ''GET'' None None None)
     = Inr (PDict [])"
proof -
  let ?req = "\<lparr>req_method = ''GET'', req_url = ''u'', req_params = None, req_json = None,
               req_headers = None, req_timeout = 10\<rparr>"
  have sent: "make_request (test_provider s) ''u'' ''GET'' None None None
                = (fst (make_request (test_provider s) ''u'' ''GET'' None None None), [?req])" for s
    by (simp add: make_request_GET test_provider_def)
  have s401: "session (test_provider (fixed_session 401 ''Unauthorized'' (Inl (ValueError '''')))) ?req
                = Inr \<lparr>status_code = 401, response_text = ''Unauthorized'', json = Inl (ValueError '''')\<rparr>"
    by (simp add: test_provider_def fixed_session_def)
  have s429: "session (test_provider (fixed_session 429 ''Too Many Requests'' (Inl (ValueError '''')))) ?req
                = Inr \<lparr>status_code = 429, response_text = ''Too Many Requests'', json = Inl (ValueError '''')\<rparr>"
    by (simp add: test_provider_def fixed_session_def)
  have s500: "session (test_provider (fixed_session 500 ''Internal Server Error'' (Inl (ValueError '''')))) ?req
                = Inr \<lparr>status_code = 500, response_text = ''Internal Server Error'', json = Inl (ValueError '''')\<rparr>"
    by (simp add: test_provider_def fixed_session_def)
  have s200: "session (test_provider (fixed_session 200 ''{}'' (Inr (PDict [])))) ?req
                = Inr \<lparr>status_code = 200, response_text = ''{}'', json = Inr (PDict [])\<rparr>"
    by (simp add: test_provider_def fixed_session_def)
  show ?thesis
    using make_request_status_classes [OF sent s401] make_request_status_classes [OF sent s429]
      make_request_status_classes [OF sent s500] make_request_status_classes [OF sent s200]
    by (simp add: str_int_def str_nat.simps digit_char_def)
qed

section \<open>Point validation\<close>

lemma py_between_number:
  assumes "py_number v = Some r"
  shows "py_between lo v hi = Inr (lo \<le> r \<and> r \<le> hi)"
  using assms by (cases v) (simp_all add: py_between_def)

lemma check_ranges_numeric:
  assumes "py_number lat = Some L" "py_number lon = Some G"
  shows "check_ranges lat lon name =
     (if \<not> (- 90 \<le> L \<and> L \<le> 90) then Inl (ValidationError (name @ '' latitude must be between -90 and 90''))
      else if \<not> (- 180 \<le> G \<and> G \<le> 180) then Inl (ValidationError (name @ '' longitude must be between -180 and 180''))
      else Inr ())"
  by (simp add: check_ranges_def py_between_number [OF assms(1)] py_between_number [OF assms(2)])

text \<open>
  Claim C7. Point validation rejects with \<open>ValidationError\<close> every value that is neither a
  dict nor a \<open>GeoPoint\<close>, and every dict without a \<open>latitude\<close> or a \<open>longitude\<close> key. On
  a \<open>GeoPoint\<close> or a dict with both keys, of latitude \<open>L\<close> and longitude \<open>G\<close>, it raises
  \<open>ValidationError\<close> when \<open>|L| > 90\<close> or \<open>|G| > 180\<close>, and it succeeds when \<open>L\<close> is in
  \<open>[-90, 90]\<close> and \<open>G\<close> in \<open>[-180, 180]\<close>.
\<close>

theorem validate_location_accepts_and_rejects:
  "((\<forall>d. loc \<noteq> PDict d) \<and> (\<forall>lat lon. loc \<noteq> GeoPoint lat lon)
      \<longrightarrow> (\<exists>msg. validate_location loc name = Inl (ValidationError msg)))
   \<and> (map_of d ''latitude'' = None \<or> map_of d ''longitude'' = None
      \<longrightarrow> (\<exists>msg. validate_location (PDict d) name = Inl (ValidationError msg)))
   \<and> (loc = GeoPoint (PNum L) (PNum G)
       \<or> loc = PDict d \<and> map_of d ''latitude'' = Some (PNum L) \<and> map_of d ''longitude'' = Some (PNum G)
      \<longrightarrow> (\<bar>L\<bar> > 90 \<or> \<bar>G\<bar> > 180 \<longrightarrow> (\<exists>msg. validate_location loc name = Inl (ValidationError msg)))
        \<and> (- 90 \<le> L \<and> L \<le> 90 \<and> - 180 \<le> G \<and> G \<le> 180 \<longrightarrow> validate_location loc name = Inr ()))"
proof (intro conjI impI)
  assume "(\<forall>d. loc \<noteq> PDict d) \<and> (\<forall>lat lon. loc \<noteq> GeoPoint lat lon)"
  then show "\<exists>msg. validate_location loc name = Inl (ValidationError msg)"
    by (cases loc) simp_all
next
  assume "map_of d ''latitude'' = None \<or> map_of d ''longitude'' = None"
  then show "\<exists>msg. validate_location (PDict d) name = Inl (ValidationError msg)"
    by (auto split: option.splits)
next
  assume shape: "loc = GeoPoint (PNum L) (PNum G)
       \<or> loc = PDict d \<and> map_of d ''latitude'' = Some (PNum L) \<and> map_of d ''longitude'' = Some (PNum G)"
  then have v: "validate_location loc name = check_ranges (PNum L) (PNum G) name"
    by auto
  { assume "\<bar>L\<bar> > 90 \<or> \<bar>G\<bar> > 180"
    then show "\<exists>msg. validate_location loc name = Inl (ValidationError msg)"
      unfolding v by (auto simp: check_ranges_numeric) }
  { assume "- 90 \<le> L \<and> L \<le> 90 \<and> - 180 \<le> G \<and> G \<le> 180"
    then show "validate_location loc name = Inr ()"
      unfolding v by (simp add: check_ranges_numeric) }
qed

theorem validate_location_accepts_and_rejects_witness:
  "validate_location (PStr ''51.5,-0.1'') ''location''
     = Inl (ValidationError ''location must be a GeoPoint or dict with latitude and longitude'')
   \<and> validate_location (PDict [(''latitude'', PNum 10)]) ''location''
     = Inl (ValidationError ''location must have 'latitude' and 'longitude' keys'')
   \<and> validate_location (GeoPoint (PNum 91) (PNum (- 122.4194))) ''location''
     = Inl (ValidationError ''location latitude must be between -90 and 90'')
   \<and> validate_location (PDict [(''latitude'', PNum 37.7749), (''longitude'', PNum (- 181))]) ''location''
     = Inl (ValidationError ''location longitude must be between -180 and 180'')
   \<and> validate_location (GeoPoint (PNum 37.7749) (PNum (- 122.4194))) ''location'' = Inr ()
   \<and> validate_location (PDict [(''latitude'', PNum 90), (''longitude'', PNum (- 180))]) ''location'' = Inr ()"
proof -
  note w = validate_location_accepts_and_rejects [where name = "''location''"]
  have a: "\<exists>msg. validate_location (PStr ''51.5,-0.1'') ''location'' = Inl (ValidationError msg)"
    using w [where loc = "PStr ''51.5,-0.1''"] by simp
  have b: "\<exists>msg. validate_location (PDict [(''latitude'', PNum 10)]) ''location'' = Inl (ValidationError msg)"
    using w [where d = "[(''latitude'', PNum 10)]"] by simp
  have c: "\<exists>msg. validate_location (GeoPoint (PNum 91) (PNum (- 122.4194))) ''location''
             = Inl (ValidationError msg)"
    using w [where loc = "GeoPoint (PNum 91) (PNum (- 122.4194))" and L = 91 and G = "- 122.4194"]
    by simp
  have d: "\<exists>msg. validate_location (PDict [(''latitude'', PNum 37.7749), (''longitude'', PNum (- 181))])
             ''location'' = Inl (ValidationError msg)"
    using w [where loc = "PDict [(''latitude'', PNum 37.7749), (''longitude'', PNum (- 181))]"
               and d = "[(''latitude'', PNum 37.7749), (''longitude'', PNum (- 181))]"
               and L = "37.7749" and G = "- 181"]
    by simp
  have e: "validate_location (GeoPoint (PNum 37.7749) (PNum (- 122.4194))) ''location'' = Inr ()"
    using w [where loc = "GeoPoint (PNum 37.7749) (PNum (- 122.4194))" and L = "37.7749" and G = "- 122.4194"]
    by simp
  have f: "validate_location (PDict [(''latitude'', PNum 90), (''longitude'', PNum (- 180))]) ''location''
             = Inr ()"
    using w [where loc = "PDict [(''latitude'', PNum 90), (''longitude'', PNum (- 180))]"
               and d = "[(''latitude'', PNum 90), (''longitude'', PNum (- 180))]"
               and L = 90 and G = "- 180"]
    by simp
  from a b c d e f show ?thesis
    by (simp add: check_ranges_def py_between_def)
qed

section \<open>The distance matrix cap\<close>

lemma py_between_cases:
  "(is_number v \<longrightarrow> (\<exists>b. py_between lo v hi = Inr b))
   \<and> (\<not> is_number v \<longrightarrow> py_between lo v hi = Inl (TypeError ''<= not supported between instances''))"
  by (cases v) (auto simp: py_between_def)

lemma check_ranges_cases:
  "check_ranges lat lon name = Inr ()
   \<or> (\<exists>msg. check_ranges lat lon name = Inl (ValidationError msg))
   \<or> (\<exists>msg. check_ranges lat lon name = Inl (TypeError msg)) \<and> (\<not> is_number lat \<or> \<not> is_number lon)"
proof (cases "is_number lat")
  case False
  then have "py_between (- 90) lat 90 = Inl (TypeError ''<= not supported between instances'')"
    using py_between_cases [of lat "- 90" 90] by simp
  with False show ?thesis
    by (simp add: check_ranges_def)
next
  case True
  then obtain b where b: "py_between (- 90) lat 90 = Inr b"
    using py_between_cases [of lat "- 90" 90] by blast
  show ?thesis
  proof (cases b)
    case False
    with b show ?thesis
      by (simp add: check_ranges_def)
  next
    case lat_ok: True
    show ?thesis
    proof (cases "is_number lon")
      case False
      then have "py_between (- 180) lon 180 = Inl (TypeError ''<= not supported between instances'')"
        using py_between_cases [of lon "- 180" 180] by simp
      with b lat_ok False show ?thesis
        by (simp add: check_ranges_def)
    next
      case True
      then obtain c where c: "py_between (- 180) lon 180 = Inr c"
        using py_between_cases [of lon "- 180" 180] by blast
      with b lat_ok show ?thesis
        by (cases c) (simp_all add: check_ranges_def)
    qed
  qed
qed

lemma validate_location_cases:
  "validate_location p name = Inr ()
   \<or> (\<exists>msg. validate_location p name = Inl (ValidationError msg))
   \<or> (\<exists>msg. validate_location p name = Inl (TypeError msg)) \<and> \<not> coords_numeric p"
proof (cases p)
  case (GeoPoint lat lon)
  with check_ranges_cases [of lat lon name] show ?thesis
    by (auto simp: coords_numeric_def)
next
  case (PDict d)
  show ?thesis
  proof (cases "map_of d ''latitude''")
    case None
    with PDict show ?thesis by simp
  next
    case lat: (Some lat)
    show ?thesis
    proof (cases "map_of d ''longitude''")
      case None
      with PDict lat show ?thesis by simp
    next
      case lon: (Some lon)
      with PDict lat check_ranges_cases [of lat lon name] show ?thesis
        by (auto simp: coords_numeric_def)
    qed
  qed
qed simp_all

lemma validate_each_cases:
  "validate_each xs name idx = Inr ()
   \<or> (\<exists>msg. validate_each xs name idx = Inl (ValidationError msg))
   \<or> (\<exists>msg. validate_each xs name idx = Inl (TypeError msg)) \<and> (\<exists>p \<in> set xs. \<not> coords_numeric p)"
proof (induction xs arbitrary: idx)
  case Nil
  show ?case by simp
next
  case (Cons x xs)
  have step: "validate_each (x # xs) name idx =
                seq (validate_location x (name @ ''['' @ str_nat idx @ '']''))
                  (\<lambda>_. validate_each xs name (Suc idx))"
    by (simp only: validate_each.simps)
  from validate_location_cases [of x "name @ ''['' @ str_nat idx @ '']''"]
  show ?case
  proof (elim disjE conjE exE)
    assume "validate_location x (name @ ''['' @ str_nat idx @ '']'') = Inr ()"
    then have "validate_each (x # xs) name idx = validate_each xs name (Suc idx)"
      unfolding step by (simp only: seq_Inr)
    with Cons.IH [of "Suc idx"] show ?thesis
      by auto
  next
    fix msg
    assume "validate_location x (name @ ''['' @ str_nat idx @ '']'') = Inl (ValidationError msg)"
    then have "validate_each (x # xs) name idx = Inl (ValidationError msg)"
      unfolding step by (simp only: seq_Inl)
    then show ?thesis by blast
  next
    fix msg
    assume "validate_location x (name @ ''['' @ str_nat idx @ '']'') = Inl (TypeError msg)"
      and x: "\<not> coords_numeric x"
    then have "validate_each (x # xs) name idx = Inl (TypeError msg)"
      unfolding step by (simp only: seq_Inl)
    with x show ?thesis by auto
  qed
qed

lemma validate_locations_list_PList:
  "validate_locations_list (PList xs) name =
     (if xs = [] then Inl (ValidationError (name @ '' must not be empty''))
      else validate_each xs name 0)"
  by (simp add: validate_locations_list_def)

lemma validate_locations_list_cases:
  "validate_locations_list (PList xs) name = Inr ()
   \<or> (\<exists>msg. validate_locations_list (PList xs) name = Inl (ValidationError msg))
   \<or> (\<exists>msg. validate_locations_list (PList xs) name = Inl (TypeError msg))
     \<and> (\<exists>p \<in> set xs. \<not> coords_numeric p)"
proof (cases "xs = []")
  case True
  then show ?thesis
    by (simp add: validate_locations_list_PList)
next
  case False
  then have "validate_locations_list (PList xs) name = validate_each xs name 0"
    by (simp add: validate_locations_list_PList)
  with validate_each_cases [of xs name 0] show ?thesis
    by (simp only:)
qed

lemma distance_matrix_params_validated:
  assumes "validate_locations_list (PList ss) ''sources'' = Inr ()"
      and "validate_locations_list (PList ts) ''targets'' = Inr ()"
  shows "distance_matrix_params P (PList ss) (PList ts) =
     (if 10 < length ss \<or> 10 < length ts then
        Inl (ValidationError ''Maximum 10 sources and 10 targets are supported per request'')
      else
        seq (lat_lon_strings ss) (\<lambda>sources_str.
        seq (lat_lon_strings ts) (\<lambda>targets_str.
          Inr [(''sources'', QJoin sources_str), (''targets'', QJoin targets_str),
               (''apiKey'', QVal (PStr (api_key P)))])))"
  using assms by (simp add: distance_matrix_params_def)

text \<open>
  Claim C3, as amended. A \<open>distance_matrix\<close> call whose list of sources or whose list of
  targets has more than 10 elements raises an exception and sends no request, whatever the
  points are. The exception is \<open>ValidationError\<close>, from the validation of the two lists or
  from the cap, unless a point carries a coordinate that is not a number: the range check
  of that point may then raise \<open>TypeError\<close>, which the list validation lets through.
\<close>

theorem distance_matrix_cap:
  assumes "10 < length ss \<or> 10 < length ts"
  shows "\<exists>e. distance_matrix P (PList ss) (PList ts) mode units = (Inl e, [])
           \<and> ((\<exists>msg. e = ValidationError msg)
              \<or> (\<exists>msg. e = TypeError msg) \<and> (\<exists>p \<in> set ss \<union> set ts. \<not> coords_numeric p))"
proof -
  have "\<exists>e. distance_matrix_params P (PList ss) (PList ts) = Inl e
           \<and> ((\<exists>msg. e = ValidationError msg)
              \<or> (\<exists>msg. e = TypeError msg) \<and> (\<exists>p \<in> set ss \<union> set ts. \<not> coords_numeric p))"
    using validate_locations_list_cases [of ss "''sources''"]
  proof (elim disjE conjE exE)
    fix msg
    assume "validate_locations_list (PList ss) ''sources'' = Inl (ValidationError msg)"
    then have "distance_matrix_params P (PList ss) (PList ts) = Inl (ValidationError msg)"
      by (simp add: distance_matrix_params_def)
    then show ?thesis by blast
  next
    fix msg
    assume "validate_locations_list (PList ss) ''sources'' = Inl (TypeError msg)"
      and p: "\<exists>p \<in> set ss. \<not> coords_numeric p"
    then have "distance_matrix_params P (PList ss) (PList ts) = Inl (TypeError msg)"
      by (simp add: distance_matrix_params_def)
    with p show ?thesis by blast
  next
    assume s: "validate_locations_list (PList ss) ''sources'' = Inr ()"
    from validate_locations_list_cases [of ts "''targets''"] show ?thesis
    proof (elim disjE conjE exE)
      fix msg
      assume "validate_locations_list (PList ts) ''targets'' = Inl (ValidationError msg)"
      with s have "distance_matrix_params P (PList ss) (PList ts) = Inl (ValidationError msg)"
        by (simp add: distance_matrix_params_def)
      then show ?thesis by blast
    next
      fix msg
      assume "validate_locations_list (PList ts) ''targets'' = Inl (TypeError msg)"
        and p: "\<exists>p \<in> set ts. \<not> coords_numeric p"
      with s have "distance_matrix_params P (PList ss) (PList ts) = Inl (TypeError msg)"
        by (simp add: distance_matrix_params_def)
      with p show ?thesis by blast
    next
      assume "validate_locations_list (PList ts) ''targets'' = Inr ()"
      from distance_matrix_params_validated [OF s this] assms show ?thesis
        by simp
    qed
  qed
  then obtain e where "distance_matrix_params P (PList ss) (PList ts) = Inl e"
    and e: "(\<exists>msg. e = ValidationError msg)
            \<or> (\<exists>msg. e = TypeError msg) \<and> (\<exists>p \<in> set ss \<union> set ts. \<not> coords_numeric p)"
    by blast
  then have "distance_matrix P (PList ss) (PList ts) mode units = (Inl e, [])"
    by (simp add: distance_matrix_def)
  with e show ?thesis by blast
qed

theorem distance_matrix_cap_witness:
  "distance_matrix (test_provider (fixed_session 200 ''{}'' (Inr (PDict []))))
     (PList (replicate 11 (GeoPoint (PNum 0) (PNum 0))))
     (PList [GeoPoint (PNum 0) (PNum 0)]) DRIVING KILOMETERS
   = (Inl (ValidationError ''Maximum 10 sources and 10 targets are supported per request''), [])
   \<and> distance_matrix (test_provider (fixed_session 200 ''{}'' (Inr (PDict []))))
     (PList [GeoPoint (PNum 0) (PNum 0)])
     (PList (PDict [(''latitude'', PNum 91)] # replicate 10 (GeoPoint (PNum 0) (PNum 0))))
     DRIVING KILOMETERS
   = (Inl (ValidationError ''targets[0] must have 'latitude' and 'longitude' keys''), [])"
proof -
  let ?P = "test_provider (fixed_session 200 ''{}'' (Inr (PDict [])))"
  let ?p = "GeoPoint (PNum 0) (PNum 0)"
  let ?bad = "PDict [(''latitude'', PNum 91)]"
  have h1: "10 < length (replicate 11 ?p) \<or> 10 < length [?p]"
    by simp
  have h3: "10 < length [?p] \<or> 10 < length (?bad # replicate 10 ?p)"
    by simp
  have v: "validate_locations_list (PList [?p]) name = Inr ()" for name
    by (simp add: validate_locations_list_PList check_ranges_def py_between_def)
  have e: "validate_each (replicate n ?p) name idx = Inr ()" for n name idx
    by (induction n arbitrary: idx) (simp_all add: check_ranges_def py_between_def)
  have v11: "validate_locations_list (PList (replicate 11 ?p)) name = Inr ()" for name
    by (simp add: validate_locations_list_PList e)
  have t: "validate_locations_list (PList (?bad # replicate 10 ?p)) ''targets''
             = Inl (ValidationError ''targets[0] must have 'latitude' and 'longitude' keys'')"
    by (simp add: validate_locations_list_PList str_nat.simps digit_char_def)
  have p1: "distance_matrix_params ?P (PList (replicate 11 ?p)) (PList [?p])
              = Inl (ValidationError ''Maximum 10 sources and 10 targets are supported per request'')"
    by (simp add: distance_matrix_params_validated [OF v11 v])
  have p2: "distance_matrix_params ?P (PList [?p]) (PList (?bad # replicate 10 ?p))
              = Inl (ValidationError ''targets[0] must have 'latitude' and 'longitude' keys'')"
    by (simp add: distance_matrix_params_def v t)
  obtain e1 where m1: "distance_matrix ?P (PList (replicate 11 ?p)) (PList [?p]) DRIVING KILOMETERS
                         = (Inl e1, [])"
    using distance_matrix_cap [OF h1] by blast
  obtain e2 where m2: "distance_matrix ?P (PList [?p]) (PList (?bad # replicate 10 ?p)) DRIVING KILOMETERS
                         = (Inl e2, [])"
    using distance_matrix_cap [OF h3] by blast
  have "e1 = ValidationError ''Maximum 10 sources and 10 targets are supported per request''"
    using m1 by (simp add: distance_matrix_def p1)
  moreover have "e2 = ValidationError ''targets[0] must have 'latitude' and 'longitude' keys''"
    using m2 by (simp add: distance_matrix_def p2)
  ultimately show ?thesis
    using m1 m2 by simp
qed

text \<open>
  Claim C3 as stated fails when a point carries a coordinate that is not a number: with 11
  valid sources and the target \<open>GeoPoint('a', 0)\<close>, or the target
  \<open>{'latitude': 'a', 'longitude': 0}\<close>, the call raises \<open>TypeError\<close>, not
  \<open>ValidationError\<close>. No request is sent.
\<close>

theorem distance_matrix_cap_counterexample:
  "distance_matrix (test_provider (fixed_session 200 ''{}'' (Inr (PDict []))))
     (PList (replicate 11 (GeoPoint (PNum 0) (PNum 0))))
     (PList [GeoPoint (PStr ''a'') (PNum 0)]) DRIVING KILOMETERS
   = (Inl (TypeError ''<= not supported between instances''), [])
   \<and> distance_matrix (test_provider (fixed_session 200 ''{}'' (Inr (PDict []))))
     (PList (replicate 11 (GeoPoint (PNum 0) (PNum 0))))
     (PList [PDict [(''latitude'', PStr ''a''), (''longitude'', PNum 0)]]) DRIVING KILOMETERS
   = (Inl (TypeError ''<= not supported between instances''), [])"
proof -
  let ?p = "GeoPoint (PNum 0) (PNum 0)"
  have e: "validate_each (replicate n ?p) name idx = Inr ()" for n name idx
    by (induction n arbitrary: idx) (simp_all add: check_ranges_def py_between_def)
  have v11: "validate_locations_list (PList (replicate 11 ?p)) name = Inr ()" for name
    by (simp add: validate_locations_list_PList e)
  have t1: "validate_locations_list (PList [GeoPoint (PStr ''a'') (PNum 0)]) ''targets''
              = Inl (TypeError ''<= not supported between instances'')"
    by (simp add: validate_locations_list_PList check_ranges_def py_between_def)
  have t2: "validate_locations_list
              (PList [PDict [(''latitude'', PStr ''a''), (''longitude'', PNum 0)]]) ''targets''
              = Inl (TypeError ''<= not supported between instances'')"
    by (simp add: validate_locations_list_PList check_ranges_def py_between_def)
  show ?thesis
    by (simp add: distance_matrix_def distance_matrix_params_def v11 t1 t2)
qed

section \<open>Responses without features\<close>

lemma geocode_parse_no_features:
  assumes "map_of d ''features'' = None \<or> map_of d ''features'' = Some (PList [])"
  shows "geocode_parse (PDict d) = Inr []"
  using assms by (auto simp: geocode_parse_def)

lemma reverse_geocode_parse_no_features:
  assumes "map_of d ''features'' = None \<or> map_of d ''features'' = Some (PList [])"
  shows "reverse_geocode_parse (PDict d) = Inr []"
  using assms by (auto simp: reverse_geocode_parse_def)

lemma autocomplete_parse_no_features:
  assumes "map_of d ''features'' = None \<or> map_of d ''features'' = Some (PList [])"
  shows "autocomplete_parse (PDict d) = Inr []"
  using assms by (auto simp: autocomplete_parse_def)

text \<open>
  Claim C9. When the decoded response of a \<open>geocode\<close> call with a valid query has no
  \<open>features\<close> key, or has an empty list there, the call returns the empty list and
  raises nothing. The same holds for \<open>reverse_geocode\<close> with a valid point and for
  \<open>autocomplete\<close> with a valid query and a limit from 1 to 50.
\<close>

theorem no_features_is_empty_result:
  assumes "map_of d ''features'' = None \<or> map_of d ''features'' = Some (PList [])"
  shows "(\<not> query_rejected q
          \<and> make_request P (BASE_URL @ ''/geocode/search'') ''GET''
               (Some (geocode_params P q)) None None = (Inr (PDict d), sent)
          \<longrightarrow> geocode P q = (Inr [], sent))
       \<and> (validate_location loc ''location'' = Inr ()
          \<and> reverse_geocode_params P loc = Inr ps
          \<and> make_request P (BASE_URL @ ''/geocode/reverse'') ''GET'' (Some ps) None None
               = (Inr (PDict d), sent)
          \<longrightarrow> reverse_geocode P loc = (Inr [], sent))
       \<and> (\<not> query_rejected q \<and> 1 \<le> limit \<and> limit \<le> 50
          \<and> make_request P (BASE_URL @ ''/geocode/autocomplete'') ''GET''
               (Some (autocomplete_params P q limit)) None None = (Inr (PDict d), sent)
          \<longrightarrow> autocomplete P q limit = (Inr [], sent))"
proof (intro conjI impI)
  assume "\<not> query_rejected q
          \<and> make_request P (BASE_URL @ ''/geocode/search'') ''GET''
               (Some (geocode_params P q)) None None = (Inr (PDict d), sent)"
  then show "geocode P q = (Inr [], sent)"
    by (simp add: geocode_def geocode_parse_no_features [OF assms])
next
  assume "validate_location loc ''location'' = Inr ()
          \<and> reverse_geocode_params P loc = Inr ps
          \<and> make_request P (BASE_URL @ ''/geocode/reverse'') ''GET'' (Some ps) None None
               = (Inr (PDict d), sent)"
  then show "reverse_geocode P loc = (Inr [], sent)"
    by (simp add: reverse_geocode_def reverse_geocode_parse_no_features [OF assms])
next
  assume "\<not> query_rejected q \<and> 1 \<le> limit \<and> limit \<le> 50
          \<and> make_request P (BASE_URL @ ''/geocode/autocomplete'') ''GET''
               (Some (autocomplete_params P q limit)) None None = (Inr (PDict d), sent)"
  then show "autocomplete P q limit = (Inr [], sent)"
    by (simp add: autocomplete_def autocomplete_parse_no_features [OF assms])
qed

theorem no_features_is_empty_result_witness:
  "geocode (test_provider (fixed_session 200 '''' (Inr (PDict [(''features'', PList [])]))))
     (PStr ''Nonexistent Place XYZ'')
   = (Inr [],
      [\<lparr>req_method = ''GET'', req_url = ''https://api.geoapify.com/v1/geocode/search'',
        req_params = Some [(''text'', QVal (PStr ''Nonexistent Place XYZ'')),
                           (''apiKey'', QVal (PStr ''test_api_key'')),
                           (''format'', QVal (PStr ''json''))],
        req_json = None, req_headers = None, req_timeout = 10\<rparr>])
   \<and> fst (reverse_geocode (test_provider (fixed_session 200 '''' (Inr (PDict []))))
            (GeoPoint (PNum 37.7749) (PNum (- 122.4194)))) = Inr []
   \<and> fst (autocomplete (test_provider (fixed_session 200 '''' (Inr (PDict [(''features'', PList [])]))))
            (PStr ''San'') 5) = Inr []"
proof -
  let ?d = "[(''features'', PList [])]"
  let ?P = "test_provider (fixed_session 200 '''' (Inr (PDict ?d)))"
  let ?P' = "test_provider (fixed_session 200 '''' (Inr (PDict [])))"
  let ?loc = "GeoPoint (PNum 37.7749) (PNum (- 122.4194))"
  let ?ps = "[(''lat'', QVal (PNum 37.7749)), (''lon'', QVal (PNum (- 122.4194))),
              (''apiKey'', QVal (PStr ''test_api_key'')), (''format'', QVal (PStr ''json''))]"
  have d: "map_of ?d ''features'' = None \<or> map_of ?d ''features'' = Some (PList [])"
    by simp
  have d': "map_of [] ''features'' = None \<or> map_of [] ''features'' = Some (PList [])"
    by simp
  have mr: "make_request (test_provider (fixed_session 200 '''' (Inr body))) u ''GET'' ps None None
              = (Inr body,
                 [\<lparr>req_method = ''GET'', req_url = u, req_params = ps, req_json = None,
                   req_headers = None, req_timeout = 10\<rparr>])" for body u ps
    by (simp add: make_request_GET test_provider_def fixed_session_def handle_response_def)
  have q1: "\<not> query_rejected (PStr ''Nonexistent Place XYZ'')"
    by (simp add: py_strip_def py_isspace_def)
  have q2: "\<not> query_rejected (PStr ''San'')"
    by (simp add: py_strip_def py_isspace_def)
  have v: "validate_location ?loc ''location'' = Inr ()"
    by (simp add: check_ranges_def py_between_def)
  have rp: "reverse_geocode_params ?P' ?loc = Inr ?ps"
    by (simp add: reverse_geocode_params_def test_provider_def)
  have "geocode ?P (PStr ''Nonexistent Place XYZ'')
          = (Inr [], snd (make_request ?P (BASE_URL @ ''/geocode/search'') ''GET''
                            (Some (geocode_params ?P (PStr ''Nonexistent Place XYZ''))) None None))"
    using no_features_is_empty_result [OF d, where P = ?P and q = "PStr ''Nonexistent Place XYZ''"] q1
    by (simp add: mr)
  moreover have "fst (reverse_geocode ?P' ?loc) = Inr []"
    using no_features_is_empty_result [OF d', where P = ?P' and loc = ?loc and ps = ?ps] v rp
    by (simp add: mr)
  moreover have "fst (autocomplete ?P (PStr ''San'') 5) = Inr []"
    using no_features_is_empty_result [OF d, where P = ?P and q = "PStr ''San''" and limit = 5] q2
    by (simp add: mr)
  moreover have "api_key ?P = ''test_api_key''"
    by (simp add: test_provider_def)
  ultimately show ?thesis
    by (simp add: mr geocode_params_def BASE_URL_def)
qed

lemma route_parse_no_features:
  assumes "map_of d ''features'' = None \<or> map_of d ''features'' = Some (PList [])"
  shows "route_parse (PDict d) = Inl (APIError ''No route found between the provided locations'')"
  using assms by (auto simp: route_parse_def)

text \<open>
  Claim C5. When the decoded response of a \<open>route\<close> call with two valid points has no
  \<open>features\<close> key, or has an empty list there, the call raises \<open>APIError\<close> with the
  message that no route was found; it returns no \<open>RouteInfo\<close>.
\<close>

theorem route_without_features_fails:
  assumes "map_of d ''features'' = None \<or> map_of d ''features'' = Some (PList [])"
      and "route_params P source target mode = Inr ps"
      and "make_request P (BASE_URL @ ''/routing'') ''GET'' (Some ps) None None
             = (Inr (PDict d), sent)"
  shows "route P source target mode
           = (Inl (APIError ''No route found between the provided locations''), sent)"
  using assms(2,3) by (simp add: route_def route_parse_no_features [OF assms(1)])

theorem route_without_features_fails_witness:
  "fst (route (test_provider (fixed_session 200 '''' (Inr (PDict [(''features'', PList [])]))))
          (GeoPoint (PNum 37.7749) (PNum (- 122.4194)))
          (GeoPoint (PNum 34.0522) (PNum (- 118.2437))) DRIVING)
     = Inl (APIError ''No route found between the provided locations'')
   \<and> fst (route (test_provider (fixed_session 200 '''' (Inr (PDict []))))
          (GeoPoint (PNum 37.7749) (PNum (- 122.4194)))
          (GeoPoint (PNum 34.0522) (PNum (- 118.2437))) DRIVING)
     = Inl (APIError ''No route found between the provided locations'')"
proof -
  let ?d = "[(''features'', PList [])]"
  let ?s = "GeoPoint (PNum 37.7749) (PNum (- 122.4194))"
  let ?t = "GeoPoint (PNum 34.0522) (PNum (- 118.2437))"
  let ?ps = "[(''from'', QLatLon (PNum 37.7749) (PNum (- 122.4194))),
              (''to'', QLatLon (PNum 34.0522) (PNum (- 118.2437))),
              (''mode'', QVal (PStr ''drive'')), (''apiKey'', QVal (PStr ''test_api_key''))]"
  have d: "map_of ?d ''features'' = None \<or> map_of ?d ''features'' = Some (PList [])"
    by simp
  have d': "map_of [] ''features'' = None \<or> map_of [] ''features'' = Some (PList [])"
    by simp
  have mr: "make_request (test_provider (fixed_session 200 '''' (Inr body))) u ''GET'' ps None None
              = (Inr body,
                 [\<lparr>req_method = ''GET'', req_url = u, req_params = ps, req_json = None,
                   req_headers = None, req_timeout = 10\<rparr>])" for body u ps
    by (simp add: make_request_GET test_provider_def fixed_session_def handle_response_def)
  have rp: "route_params (test_provider sess) ?s ?t DRIVING = Inr ?ps" for sess
    by (simp add: route_params_def check_ranges_def py_between_def test_provider_def)
  show ?thesis
    using route_without_features_fails [OF d rp mr] route_without_features_fails [OF d' rp mr]
    by simp
qed

section \<open>Routes with a missing distance or time\<close>









section \<open>Coordinates of a feature\<close>

lemma lat_lon_of_coords_pair:
  "lat_lon_of_coords (PList (x # y # rest)) = Inr (Some (y, x))"
  by (simp add: lat_lon_of_coords_def)

lemma feature_coords_geometry:
  assumes "map_of fd ''geometry'' = Some (PDict g)"
      and "map_of g ''coordinates'' = Some coords"
  shows "feature_coords (PDict fd) = Inr coords"
  using assms by (simp add: feature_coords_def)

lemma geocode_feature_swaps:
  assumes "feature_coords feature = Inr (PList (x # y # rest))"
      and "geocode_feature feature = Inr res"
  shows "\<exists>r. res = Some r \<and> GeocodingResult.raw_data r = feature
             \<and> GeocodingResult.location r = GeoPoint y x"
  using assms
  by (auto simp: geocode_feature_def lat_lon_of_coords_pair seq_def split: sum.splits)

lemma autocomplete_feature_swaps:
  assumes "feature_coords feature = Inr (PList (x # y # rest))"
      and "autocomplete_feature feature = Inr res"
  shows "\<exists>r. res = Some r \<and> AutocompleteResult.raw_data r = feature
             \<and> AutocompleteResult.location r = GeoPoint y x"
  using assms
  by (auto simp: autocomplete_feature_def lat_lon_of_coords_pair seq_def split: sum.splits)

lemma geocode_loop_keeps:
  assumes "geocode_loop items acc = Inr results"
  shows "set acc \<subseteq> set results"
  using assms
proof (induction items arbitrary: acc)
  case Nil
  then show ?case by simp
next
  case (Cons feature items)
  then obtain res where res: "geocode_feature feature = Inr res"
    and rest: "geocode_loop items (case res of None \<Rightarrow> acc | Some r \<Rightarrow> acc @ [r]) = Inr results"
    by (cases "geocode_feature feature") simp_all
  from Cons.IH [OF rest] show ?case
    by (cases res) auto
qed

lemma geocode_loop_visits:
  assumes "geocode_loop items acc = Inr results"
      and "feature \<in> set items"
  shows "\<exists>res. geocode_feature feature = Inr res \<and> (\<forall>r. res = Some r \<longrightarrow> r \<in> set results)"
  using assms
proof (induction items arbitrary: acc)
  case Nil
  then show ?case by simp
next
  case (Cons first items)
  then obtain res where res: "geocode_feature first = Inr res"
    and rest: "geocode_loop items (case res of None \<Rightarrow> acc | Some r \<Rightarrow> acc @ [r]) = Inr results"
    by (cases "geocode_feature first") simp_all
  show ?case
  proof (cases "feature = first")
    case True
    have "\<forall>r. res = Some r \<longrightarrow> r \<in> set results"
      using geocode_loop_keeps [OF rest] by (cases res) auto
    with res True show ?thesis
      by simp
  next
    case False
    with Cons.prems(2) have "feature \<in> set items"
      by simp
    from Cons.IH [OF rest this] show ?thesis .
  qed
qed

lemma autocomplete_loop_keeps:
  assumes "autocomplete_loop items acc = Inr results"
  shows "set acc \<subseteq> set results"
  using assms
proof (induction items arbitrary: acc)
  case Nil
  then show ?case by simp
next
  case (Cons feature items)
  then obtain res where res: "autocomplete_feature feature = Inr res"
    and rest: "autocomplete_loop items (case res of None \<Rightarrow> acc | Some r \<Rightarrow> acc @ [r]) = Inr results"
    by (cases "autocomplete_feature feature") simp_all
  from Cons.IH [OF rest] show ?case
    by (cases res) auto
qed

lemma autocomplete_loop_visits:
  assumes "autocomplete_loop items acc = Inr results"
      and "feature \<in> set items"
  shows "\<exists>res. autocomplete_feature feature = Inr res \<and> (\<forall>r. res = Some r \<longrightarrow> r \<in> set results)"
  using assms
proof (induction items arbitrary: acc)
  case Nil
  then show ?case by simp
next
  case (Cons first items)
  then obtain res where res: "autocomplete_feature first = Inr res"
    and rest: "autocomplete_loop items (case res of None \<Rightarrow> acc | Some r \<Rightarrow> acc @ [r]) = Inr results"
    by (cases "autocomplete_feature first") simp_all
  show ?case
  proof (cases "feature = first")
    case True
    have "\<forall>r. res = Some r \<longrightarrow> r \<in> set results"
      using autocomplete_loop_keeps [OF rest] by (cases res) auto
    with res True show ?thesis
      by simp
  next
    case False
    with Cons.prems(2) have "feature \<in> set items"
      by simp
    from Cons.IH [OF rest this] show ?thesis .
  qed
qed

lemma geocode_parse_features:
  assumes "map_of d ''features'' = Some (PList fs)"
  shows "geocode_parse (PDict d) = geocode_loop fs []"
  using assms by (simp add: geocode_parse_def)

lemma autocomplete_parse_features:
  assumes "map_of d ''features'' = Some (PList fs)"
  shows "autocomplete_parse (PDict d) = autocomplete_loop fs []"
  using assms by (simp add: autocomplete_parse_def)

text \<open>
  Claim C8. Let the decoded response of a \<open>geocode\<close> call hold a feature whose geometry
  has the coordinates \<open>[x, y, ...]\<close>. When the call returns, its results hold one that was
  built from this feature, and the \<open>GeoPoint\<close> of that result has latitude \<open>y\<close>, the second
  element on the wire, and longitude \<open>x\<close>, the first. The same holds for \<open>autocomplete\<close>.
\<close>

theorem coordinates_are_swapped:
  assumes "map_of d ''features'' = Some (PList fs)"
      and "PDict fd \<in> set fs"
      and "map_of fd ''geometry'' = Some (PDict g)"
      and "map_of g ''coordinates'' = Some (PList (x # y # rest))"
  shows "(\<not> query_rejected q
          \<and> make_request P (BASE_URL @ ''/geocode/search'') ''GET''
               (Some (geocode_params P q)) None None = (Inr (PDict d), sent)
          \<and> geocode P q = (Inr results, sent)
          \<longrightarrow> (\<exists>r \<in> set results. GeocodingResult.raw_data r = PDict fd
                   \<and> GeocodingResult.location r = GeoPoint y x
                   \<and> latitude (GeocodingResult.location r) = y
                   \<and> longitude (GeocodingResult.location r) = x))
       \<and> (\<not> query_rejected q \<and> 1 \<le> limit \<and> limit \<le> 50
          \<and> make_request P (BASE_URL @ ''/geocode/autocomplete'') ''GET''
               (Some (autocomplete_params P q limit)) None None = (Inr (PDict d), sent)
          \<and> autocomplete P q limit = (Inr suggestions, sent)
          \<longrightarrow> (\<exists>r \<in> set suggestions. AutocompleteResult.raw_data r = PDict fd
                   \<and> AutocompleteResult.location r = GeoPoint y x
                   \<and> latitude (AutocompleteResult.location r) = y
                   \<and> longitude (AutocompleteResult.location r) = x))"
proof (intro conjI impI)
  have coords: "feature_coords (PDict fd) = Inr (PList (x # y # rest))"
    by (rule feature_coords_geometry [OF assms(3,4)])
  {
    assume h: "\<not> query_rejected q
          \<and> make_request P (BASE_URL @ ''/geocode/search'') ''GET''
               (Some (geocode_params P q)) None None = (Inr (PDict d), sent)
          \<and> geocode P q = (Inr results, sent)"
    then have "geocode_parse (PDict d) = Inr results"
      by (auto simp: geocode_def)
    then have loop: "geocode_loop fs [] = Inr results"
      by (simp add: geocode_parse_features [OF assms(1)])
    from geocode_loop_visits [OF loop assms(2)] obtain res
      where res: "geocode_feature (PDict fd) = Inr res"
        and mem: "\<forall>r. res = Some r \<longrightarrow> r \<in> set results"
      by blast
    from geocode_feature_swaps [OF coords res] obtain r
      where "res = Some r" "GeocodingResult.raw_data r = PDict fd"
        "GeocodingResult.location r = GeoPoint y x"
      by blast
    with mem show "\<exists>r \<in> set results. GeocodingResult.raw_data r = PDict fd
                   \<and> GeocodingResult.location r = GeoPoint y x
                   \<and> latitude (GeocodingResult.location r) = y
                   \<and> longitude (GeocodingResult.location r) = x"
      by auto
  }
  {
    assume h: "\<not> query_rejected q \<and> 1 \<le> limit \<and> limit \<le> 50
          \<and> make_request P (BASE_URL @ ''/geocode/autocomplete'') ''GET''
               (Some (autocomplete_params P q limit)) None None = (Inr (PDict d), sent)
          \<and> autocomplete P q limit = (Inr suggestions, sent)"
    then have "autocomplete_parse (PDict d) = Inr suggestions"
      by (auto simp: autocomplete_def)
    then have loop: "autocomplete_loop fs [] = Inr suggestions"
      by (simp add: autocomplete_parse_features [OF assms(1)])
    from autocomplete_loop_visits [OF loop assms(2)] obtain res
      where res: "autocomplete_feature (PDict fd) = Inr res"
        and mem: "\<forall>r. res = Some r \<longrightarrow> r \<in> set suggestions"
      by blast
    from autocomplete_feature_swaps [OF coords res] obtain r
      where "res = Some r" "AutocompleteResult.raw_data r = PDict fd"
        "AutocompleteResult.location r = GeoPoint y x"
      by blast
    with mem show "\<exists>r \<in> set suggestions. AutocompleteResult.raw_data r = PDict fd
                   \<and> AutocompleteResult.location r = GeoPoint y x
                   \<and> latitude (AutocompleteResult.location r) = y
                   \<and> longitude (AutocompleteResult.location r) = x"
      by auto
  }
qed

theorem coordinates_are_swapped_witness:
  "fst (geocode
         (test_provider (fixed_session 200 ''''
            (Inr (PDict [(''features'',
               PList [PDict [(''properties'', PDict [(''city'', PStr ''San Francisco'')]),
                             (''geometry'', PDict [(''coordinates'',
                                PList [PNum (- 122.4194), PNum 37.7749])])]])]))))
         (PStr ''San Francisco''))
     = Inr [\<lparr>GeocodingResult.location = GeoPoint (PNum 37.7749) (PNum (- 122.4194)),
             GeocodingResult.address =
               \<lparr>street = PNone, house_number = PNone, city = PStr ''San Francisco'',
                postcode = PNone, country = PNone, country_code = PNone, state = PNone,
                formatted_address = PNone\<rparr>,
             confidence = PNone, confidence_building_level = PNone,
             confidence_street_level = PNone, confidence_city_level = PNone,
             GeocodingResult.raw_data =
               PDict [(''properties'', PDict [(''city'', PStr ''San Francisco'')]),
                      (''geometry'', PDict [(''coordinates'',
                         PList [PNum (- 122.4194), PNum 37.7749])])]\<rparr>]
   \<and> fst (autocomplete
         (test_provider (fixed_session 200 ''''
            (Inr (PDict [(''features'',
               PList [PDict [(''properties'', PDict [(''city'', PStr ''San Francisco'')]),
                             (''geometry'', PDict [(''coordinates'',
                                PList [PNum (- 122.4194), PNum 37.7749])])]])]))))
         (PStr ''San'') 5)
     = Inr [\<lparr>AutocompleteResult.address =
               \<lparr>street = PNone, house_number = PNone, city = PStr ''San Francisco'',
                postcode = PNone, country = PNone, country_code = PNone, state = PNone,
                formatted_address = PNone\<rparr>,
             AutocompleteResult.location = GeoPoint (PNum 37.7749) (PNum (- 122.4194)),
             AutocompleteResult.raw_data =
               PDict [(''properties'', PDict [(''city'', PStr ''San Francisco'')]),
                      (''geometry'', PDict [(''coordinates'',
                         PList [PNum (- 122.4194), PNum 37.7749])])]\<rparr>]"
proof -
  let ?g = "[(''coordinates'', PList [PNum (- 122.4194), PNum 37.7749])]"
  let ?fd = "[(''properties'', PDict [(''city'', PStr ''San Francisco'')]), (''geometry'', PDict ?g)]"
  let ?d = "[(''features'', PList [PDict ?fd])]"
  let ?P = "test_provider (fixed_session 200 '''' (Inr (PDict ?d)))"
  let ?addr = "\<lparr>street = PNone, house_number = PNone, city = PStr ''San Francisco'',
                postcode = PNone, country = PNone, country_code = PNone, state = PNone,
                formatted_address = PNone\<rparr>"
  let ?r = "\<lparr>GeocodingResult.location = GeoPoint (PNum 37.7749) (PNum (- 122.4194)),
             GeocodingResult.address = ?addr,
             confidence = PNone, confidence_building_level = PNone,
             confidence_street_level = PNone, confidence_city_level = PNone,
             GeocodingResult.raw_data = PDict ?fd\<rparr>"
  let ?a = "\<lparr>AutocompleteResult.address = ?addr,
             AutocompleteResult.location = GeoPoint (PNum 37.7749) (PNum (- 122.4194)),
             AutocompleteResult.raw_data = PDict ?fd\<rparr>"
  let ?sent1 = "[\<lparr>req_method = ''GET'', req_url = BASE_URL @ ''/geocode/search'',
                  req_params = Some (geocode_params ?P (PStr ''San Francisco'')),
                  req_json = None, req_headers = None, req_timeout = 10\<rparr>]"
  let ?sent2 = "[\<lparr>req_method = ''GET'', req_url = BASE_URL @ ''/geocode/autocomplete'',
                  req_params = Some (autocomplete_params ?P (PStr ''San'') 5),
                  req_json = None, req_headers = None, req_timeout = 10\<rparr>]"
  have f: "map_of ?d ''features'' = Some (PList [PDict ?fd])"
    by simp
  have m: "PDict ?fd \<in> set [PDict ?fd]"
    by simp
  have geo: "map_of ?fd ''geometry'' = Some (PDict ?g)"
    by simp
  have co: "map_of ?g ''coordinates'' = Some (PList (PNum (- 122.4194) # PNum 37.7749 # []))"
    by simp
  have mr: "make_request (test_provider (fixed_session 200 '''' (Inr body))) u ''GET'' ps None None
              = (Inr body,
                 [\<lparr>req_method = ''GET'', req_url = u, req_params = ps, req_json = None,
                   req_headers = None, req_timeout = 10\<rparr>])" for body u ps
    by (simp add: make_request_GET test_provider_def fixed_session_def handle_response_def)
  have q1: "\<not> query_rejected (PStr ''San Francisco'')"
    by (simp add: py_strip_def py_isspace_def)
  have q2: "\<not> query_rejected (PStr ''San'')"
    by (simp add: py_strip_def py_isspace_def)
  have p1: "geocode_parse (PDict ?d) = Inr [?r]"
    by (simp add: geocode_parse_def geocode_feature_def feature_coords_def
        lat_lon_of_coords_def address_of_props_def)
  have p2: "autocomplete_parse (PDict ?d) = Inr [?a]"
    by (simp add: autocomplete_parse_def autocomplete_feature_def feature_coords_def
        lat_lon_of_coords_def address_of_props_def)
  have g1: "geocode ?P (PStr ''San Francisco'') = (Inr [?r], ?sent1)"
    unfolding geocode_def mr with_response_Inr p1 using q1 by simp
  have g2: "autocomplete ?P (PStr ''San'') 5 = (Inr [?a], ?sent2)"
    unfolding autocomplete_def mr with_response_Inr p2 using q2 by simp
  note w = coordinates_are_swapped [OF f m geo co, where P = ?P]
  have "\<exists>r \<in> set [?r]. GeocodingResult.location r = GeoPoint (PNum 37.7749) (PNum (- 122.4194))"
    using w [where q = "PStr ''San Francisco''" and sent = ?sent1 and results = "[?r]"] q1 g1
    by (simp add: mr)
  moreover have "\<exists>r \<in> set [?a]. AutocompleteResult.location r = GeoPoint (PNum 37.7749) (PNum (- 122.4194))"
    using w [where q = "PStr ''San''" and limit = 5 and sent = ?sent2 and suggestions = "[?a]"] q2 g2
    by (simp add: mr)
  ultimately show ?thesis
    using g1 g2 by simp
qed

section \<open>The distance matrix grid\<close>

lemma matrix_row_cells:
  "matrix_row (map PDict cells) distance_row duration_row
     = Inr (distance_row @ map (cell_value ''distance'') cells,
            duration_row @ map (cell_value ''time'') cells)"
  by (induction cells arbitrary: distance_row duration_row) (simp_all add: cell_value_def)

lemma matrix_rows_grid:
  "matrix_rows (map (\<lambda>row. PList (map PDict row)) grid) ds ts
     = Inr (ds @ map (map (cell_value ''distance'')) grid,
            ts @ map (map (cell_value ''time'')) grid)"
  by (induction grid arbitrary: ds ts) (simp_all add: matrix_row_cells)

lemma distance_matrix_parse_absent:
  assumes "map_of d ''sources_to_targets'' = None"
  shows "distance_matrix_parse srcs tgts (PDict d)
           = Inr \<lparr>distances = [], durations = [], unit = ''metric'', sources = srcs, targets = tgts\<rparr>"
  using assms by (simp add: distance_matrix_parse_def)

lemma distance_matrix_parse_grid:
  assumes "map_of d ''sources_to_targets'' = Some (PList (map (\<lambda>row. PList (map PDict row)) grid))"
  shows "distance_matrix_parse srcs tgts (PDict d)
           = Inr \<lparr>distances = map (map (cell_value ''distance'')) grid,
                  durations = map (map (cell_value ''time'')) grid,
                  unit = ''metric'', sources = srcs, targets = tgts\<rparr>"
  using assms by (simp add: distance_matrix_parse_def matrix_rows_grid)

text \<open>
  Claim C1, as amended. A \<open>distance_matrix\<close> call that passes validation and receives a
  decoded response returns the grid of the response, not a grid of the size of its
  arguments. When the response has no \<open>sources_to_targets\<close> key, both grids are empty.
  When it has one, a list of rows of objects, \<open>distances\<close> and \<open>durations\<close> have one row
  for each row of the response and one entry for each object of that row:
  \<open>distances[i][j]\<close> is the \<open>distance\<close> of object \<open>j\<close> of row \<open>i\<close> and \<open>durations[i][j]\<close> its
  \<open>time\<close>, each 0 when the object lacks it. So the grids are \<open>len(sources)\<close> by
  \<open>len(targets)\<close> when the response is, and not otherwise. The result carries the two lists of the
  call as they are.
\<close>

theorem distance_matrix_grid_is_the_response:
  assumes "distance_matrix_params P srcs tgts = Inr ps"
      and "make_request P (BASE_URL @ ''/routematrix'') ''GET'' (Some ps) None None
             = (Inr (PDict d), sent)"
  shows "(map_of d ''sources_to_targets'' = None \<longrightarrow>
            distance_matrix P srcs tgts mode units
              = (Inr \<lparr>distances = [], durations = [], unit = ''metric'',
                      sources = srcs, targets = tgts\<rparr>, sent))
       \<and> (map_of d ''sources_to_targets'' = Some (PList (map (\<lambda>row. PList (map PDict row)) grid)) \<longrightarrow>
            (\<exists>res. distance_matrix P srcs tgts mode units = (Inr res, sent)
               \<and> sources res = srcs \<and> targets res = tgts
               \<and> length (distances res) = length grid
               \<and> length (durations res) = length grid
               \<and> (\<forall>i < length grid.
                     length (distances res ! i) = length (grid ! i)
                     \<and> length (durations res ! i) = length (grid ! i)
                     \<and> (\<forall>j < length (grid ! i).
                           distances res ! i ! j = cell_value ''distance'' (grid ! i ! j)
                           \<and> durations res ! i ! j = cell_value ''time'' (grid ! i ! j)))
               \<and> (\<forall>ss ts. srcs = PList ss \<and> tgts = PList ts \<and> length grid = length ss
                       \<and> (\<forall>row \<in> set grid. length row = length ts) \<longrightarrow>
                     length (distances res) = length ss
                     \<and> (\<forall>row \<in> set (distances res). length row = length ts)
                     \<and> length (durations res) = length ss
                     \<and> (\<forall>row \<in> set (durations res). length row = length ts))))"
proof (intro conjI impI)
  have call: "distance_matrix P srcs tgts mode units = (distance_matrix_parse srcs tgts (PDict d), sent)"
    using assms by (simp add: distance_matrix_def)
  {
    assume "map_of d ''sources_to_targets'' = None"
    then show "distance_matrix P srcs tgts mode units
              = (Inr \<lparr>distances = [], durations = [], unit = ''metric'',
                      sources = srcs, targets = tgts\<rparr>, sent)"
      by (simp add: call distance_matrix_parse_absent)
  }
  {
    assume g: "map_of d ''sources_to_targets'' = Some (PList (map (\<lambda>row. PList (map PDict row)) grid))"
    let ?res = "\<lparr>distances = map (map (cell_value ''distance'')) grid,
                 durations = map (map (cell_value ''time'')) grid,
                 unit = ''metric'', sources = srcs, targets = tgts\<rparr>"
    have c: "distance_matrix P srcs tgts mode units = (Inr ?res, sent)"
      by (simp add: call distance_matrix_parse_grid [OF g])
    show "\<exists>res. distance_matrix P srcs tgts mode units = (Inr res, sent)
               \<and> sources res = srcs \<and> targets res = tgts
               \<and> length (distances res) = length grid
               \<and> length (durations res) = length grid
               \<and> (\<forall>i < length grid.
                     length (distances res ! i) = length (grid ! i)
                     \<and> length (durations res ! i) = length (grid ! i)
                     \<and> (\<forall>j < length (grid ! i).
                           distances res ! i ! j = cell_value ''distance'' (grid ! i ! j)
                           \<and> durations res ! i ! j = cell_value ''time'' (grid ! i ! j)))
               \<and> (\<forall>ss ts. srcs = PList ss \<and> tgts = PList ts \<and> length grid = length ss
                       \<and> (\<forall>row \<in> set grid. length row = length ts) \<longrightarrow>
                     length (distances res) = length ss
                     \<and> (\<forall>row \<in> set (distances res). length row = length ts)
                     \<and> length (durations res) = length ss
                     \<and> (\<forall>row \<in> set (durations res). length row = length ts))"
    proof (intro exI [of _ ?res] conjI)
      show "distance_matrix P srcs tgts mode units = (Inr ?res, sent)"
        by (rule c)
    qed auto
  }
qed

theorem distance_matrix_grid_is_the_response_witness:
  "fst (distance_matrix
          (test_provider (fixed_session 200 ''''
             (Inr (PDict [(''sources_to_targets'',
                PList [PList [PDict [(''distance'', PNum 50000), (''time'', PNum 1800)],
                              PDict [(''distance'', PNum 60000), (''time'', PNum 2100)]],
                       PList [PDict [(''distance'', PNum 45000), (''time'', PNum 1600)],
                              PDict [(''distance'', PNum 55000)]]])]))))
          (PList [GeoPoint (PNum 37.7749) (PNum (- 122.4194)),
                  GeoPoint (PNum 34.0522) (PNum (- 118.2437))])
          (PList [GeoPoint (PNum 39.7392) (PNum (- 104.9903)),
                  GeoPoint (PNum 40.7128) (PNum (- 74.0060))])
          DRIVING KILOMETERS)
     = Inr \<lparr>distances = [[PNum 50000, PNum 60000], [PNum 45000, PNum 55000]],
            durations = [[PNum 1800, PNum 2100], [PNum 1600, PNum 0]],
            unit = ''metric'',
            sources = PList [GeoPoint (PNum 37.7749) (PNum (- 122.4194)),
                             GeoPoint (PNum 34.0522) (PNum (- 118.2437))],
            targets = PList [GeoPoint (PNum 39.7392) (PNum (- 104.9903)),
                             GeoPoint (PNum 40.7128) (PNum (- 74.0060))]\<rparr>"
proof -
  let ?grid = "[[[(''distance'', PNum 50000), (''time'', PNum 1800)],
                 [(''distance'', PNum 60000), (''time'', PNum 2100)]],
                [[(''distance'', PNum 45000), (''time'', PNum 1600)],
                 [(''distance'', PNum 55000)]]]"
  let ?d = "[(''sources_to_targets'', PList (map (\<lambda>row. PList (map PDict row)) ?grid))]"
  let ?P = "test_provider (fixed_session 200 '''' (Inr (PDict ?d)))"
  let ?srcs = "PList [GeoPoint (PNum 37.7749) (PNum (- 122.4194)),
                      GeoPoint (PNum 34.0522) (PNum (- 118.2437))]"
  let ?tgts = "PList [GeoPoint (PNum 39.7392) (PNum (- 104.9903)),
                      GeoPoint (PNum 40.7128) (PNum (- 74.0060))]"
  let ?ps = "[(''sources'', QJoin [(PNum 37.7749, PNum (- 122.4194)), (PNum 34.0522, PNum (- 118.2437))]),
              (''targets'', QJoin [(PNum 39.7392, PNum (- 104.9903)), (PNum 40.7128, PNum (- 74.0060))]),
              (''apiKey'', QVal (PStr ''test_api_key''))]"
  let ?sent = "[\<lparr>req_method = ''GET'', req_url = BASE_URL @ ''/routematrix'',
                 req_params = Some ?ps, req_json = None,
                 req_headers = None, req_timeout = 10\<rparr>]"
  have mr: "make_request (test_provider (fixed_session 200 '''' (Inr body))) u ''GET'' ps None None
              = (Inr body,
                 [\<lparr>req_method = ''GET'', req_url = u, req_params = ps, req_json = None,
                   req_headers = None, req_timeout = 10\<rparr>])" for body u ps
    by (simp add: make_request_GET test_provider_def fixed_session_def handle_response_def)
  have dp: "distance_matrix_params (test_provider sess) ?srcs ?tgts = Inr ?ps" for sess
    by (simp add: distance_matrix_params_def validate_locations_list_def check_ranges_def
        py_between_def test_provider_def)
  have g: "map_of ?d ''sources_to_targets'' = Some (PList (map (\<lambda>row. PList (map PDict row)) ?grid))"
    by simp
  have p: "distance_matrix_parse ?srcs ?tgts (PDict ?d)
             = Inr \<lparr>distances = [[PNum 50000, PNum 60000], [PNum 45000, PNum 55000]],
                    durations = [[PNum 1800, PNum 2100], [PNum 1600, PNum 0]],
                    unit = ''metric'', sources = ?srcs, targets = ?tgts\<rparr>"
    by (simp add: distance_matrix_parse_def)
  from distance_matrix_grid_is_the_response
         [OF dp mr, where grid = ?grid and mode = DRIVING and units = KILOMETERS] g
  obtain res where c: "distance_matrix ?P ?srcs ?tgts DRIVING KILOMETERS = (Inr res, ?sent)"
    by blast
  then have "res = \<lparr>distances = [[PNum 50000, PNum 60000], [PNum 45000, PNum 55000]],
                    durations = [[PNum 1800, PNum 2100], [PNum 1600, PNum 0]],
                    unit = ''metric'', sources = ?srcs, targets = ?tgts\<rparr>"
    unfolding distance_matrix_def dp mr sum.case with_response_Inr p by simp
  with c show ?thesis
    by simp
qed

text \<open>
  Claim C1 as stated fails on a response of another shape than the call. For two sources
  and two targets, a response without \<open>sources_to_targets\<close> gives grids with no row,
  and a response with one row of three entries gives grids of one row and three columns.
\<close>

theorem distance_matrix_grid_counterexample:
  "fst (distance_matrix (test_provider (fixed_session 200 '''' (Inr (PDict []))))
          (PList [GeoPoint (PNum 37.7749) (PNum (- 122.4194)),
                  GeoPoint (PNum 34.0522) (PNum (- 118.2437))])
          (PList [GeoPoint (PNum 39.7392) (PNum (- 104.9903)),
                  GeoPoint (PNum 40.7128) (PNum (- 74.0060))])
          DRIVING KILOMETERS)
     = Inr \<lparr>distances = [], durations = [], unit = ''metric'',
            sources = PList [GeoPoint (PNum 37.7749) (PNum (- 122.4194)),
                             GeoPoint (PNum 34.0522) (PNum (- 118.2437))],
            targets = PList [GeoPoint (PNum 39.7392) (PNum (- 104.9903)),
                             GeoPoint (PNum 40.7128) (PNum (- 74.0060))]\<rparr>
   \<and> fst (distance_matrix
          (test_provider (fixed_session 200 ''''
             (Inr (PDict [(''sources_to_targets'',
                PList [PList [PDict [(''distance'', PNum 1), (''time'', PNum 2)],
                              PDict [(''distance'', PNum 3), (''time'', PNum 4)],
                              PDict [(''distance'', PNum 5), (''time'', PNum 6)]]])]))))
          (PList [GeoPoint (PNum 37.7749) (PNum (- 122.4194)),
                  GeoPoint (PNum 34.0522) (PNum (- 118.2437))])
          (PList [GeoPoint (PNum 39.7392) (PNum (- 104.9903)),
                  GeoPoint (PNum 40.7128) (PNum (- 74.0060))])
          DRIVING KILOMETERS)
     = Inr \<lparr>distances = [[PNum 1, PNum 3, PNum 5]], durations = [[PNum 2, PNum 4, PNum 6]],
            unit = ''metric'',
            sources = PList [GeoPoint (PNum 37.7749) (PNum (- 122.4194)),
                             GeoPoint (PNum 34.0522) (PNum (- 118.2437))],
            targets = PList [GeoPoint (PNum 39.7392) (PNum (- 104.9903)),
                             GeoPoint (PNum 40.7128) (PNum (- 74.0060))]\<rparr>"
proof -
  let ?srcs = "PList [GeoPoint (PNum 37.7749) (PNum (- 122.4194)),
                      GeoPoint (PNum 34.0522) (PNum (- 118.2437))]"
  let ?tgts = "PList [GeoPoint (PNum 39.7392) (PNum (- 104.9903)),
                      GeoPoint (PNum 40.7128) (PNum (- 74.0060))]"
  let ?ps = "[(''sources'', QJoin [(PNum 37.7749, PNum (- 122.4194)), (PNum 34.0522, PNum (- 118.2437))]),
              (''targets'', QJoin [(PNum 39.7392, PNum (- 104.9903)), (PNum 40.7128, PNum (- 74.0060))]),
              (''apiKey'', QVal (PStr ''test_api_key''))]"
  have mr: "make_request (test_provider (fixed_session 200 '''' (Inr body))) u ''GET'' ps None None
              = (Inr body,
                 [\<lparr>req_method = ''GET'', req_url = u, req_params = ps, req_json = None,
                   req_headers = None, req_timeout = 10\<rparr>])" for body u ps
    by (simp add: make_request_GET test_provider_def fixed_session_def handle_response_def)
  have dp: "distance_matrix_params (test_provider sess) ?srcs ?tgts = Inr ?ps" for sess
    by (simp add: distance_matrix_params_def validate_locations_list_def check_ranges_def
        py_between_def test_provider_def)
  show ?thesis
    unfolding distance_matrix_def dp mr by (simp add: distance_matrix_parse_def)
qed

end
